theory Spec2Isabelle
  imports Complex_Main
begin

section \<open>Numbers, points and faults\<close>

text \<open>
  The widget computes with JavaScript numbers. They are modelled as reals: rounding is
  not modelled. A quotient whose divisor is zero is \<open>Infinity\<close> or \<open>NaN\<close> in
  JavaScript and has no counterpart among the reals; the model reports it as the fault
  \<open>NonFinite\<close>, meaning that a non-finite number has entered the computation at this
  point, and does not follow the state any further; the code itself goes on with that
  number. What that does to the zoom factor is followed in a section of its own. Reading a
  property of \<open>undefined\<close> raises a \<open>TypeError\<close>.
\<close>

datatype fault = NonFinite | TypeError

definition jsdiv :: "real \<Rightarrow> real \<Rightarrow> fault + real" where
  "jsdiv a b = (if b = 0 then Inl NonFinite else Inr (a / b))"

definition andThen :: "fault + 'a \<Rightarrow> ('a \<Rightarrow> fault + 'b) \<Rightarrow> fault + 'b" where
  "andThen r f = (case r of Inl e \<Rightarrow> Inl e | Inr v \<Rightarrow> f v)"

text \<open>\<open>Point\<close>: the fields \<open>x\<close> and \<open>y\<close>.\<close>

record point =
  px :: real
  py :: real

datatype interaction = Drag | Zoom

definition zeroPoint :: point where
  "zeroPoint = \<lparr>px = 0, py = 0\<rparr>"

subsection \<open>Geometry utilities\<close>

definition isDragInteraction :: "interaction option \<Rightarrow> bool" where
  "isDragInteraction i = (i = Some Drag)"

definition isZoomInteraction :: "interaction option \<Rightarrow> bool" where
  "isZoomInteraction i = (i = Some Zoom)"

definition getDistance :: "point \<Rightarrow> point \<Rightarrow> real" where
  "getDistance a b =
     (let x = px a - px b; y = py a - py b in sqrt (x * x + y * y))"

text \<open>
  \<open>calculateScale\<close> reads the elements 0 and 1 of both arrays; a missing element is
  \<open>undefined\<close> and reading its \<open>x\<close> raises. The quotient has no guard.
\<close>

fun calculateScale :: "point list \<Rightarrow> point list \<Rightarrow> fault + real" where
  "calculateScale (s0 # s1 # ss) (e0 # e1 # es) =
     (let startDistance = getDistance s0 s1; endDistance = getDistance e0 e1
      in jsdiv endDistance startDistance)"
| "calculateScale _ _ = Inl TypeError"

definition isCloseTo :: "real \<Rightarrow> real \<Rightarrow> bool" where
  "isCloseTo v expected = (v > expected - 0.01 \<and> v < expected + 0.01)"

definition swing :: "real \<Rightarrow> real" where
  "swing p = - cos (p * pi) / 2 + 0.5"

text \<open>The mean of the points; on the empty array both quotients are \<open>0 / 0\<close>.\<close>

definition getVectorAvg :: "point list \<Rightarrow> fault + point" where
  "getVectorAvg vectors =
     andThen (jsdiv (foldl (+) 0 (map px vectors)) (real (length vectors))) (\<lambda>ax.
     andThen (jsdiv (foldl (+) 0 (map py vectors)) (real (length vectors))) (\<lambda>ay.
       Inr \<lparr>px = ax, py = ay\<rparr>))"

definition clamp :: "real \<Rightarrow> real \<Rightarrow> real \<Rightarrow> real" where
  "clamp lo hi v = (if v < lo then lo else if v > hi then hi else v)"

definition calculateVelocity :: "point \<Rightarrow> point \<Rightarrow> point" where
  "calculateVelocity startPoint endPoint =
     \<lparr>px = px endPoint - px startPoint, py = py endPoint - py startPoint\<rparr>"

definition comparePoints :: "point \<Rightarrow> point \<Rightarrow> bool" where
  "comparePoints p1 p2 = (px p1 = px p2 \<and> py p1 = py p2)"

section \<open>Events, props, host and component state\<close>

text \<open>A touch event carries the page coordinates of its touches.\<close>

record touchEvent =
  touches :: "point list"

record wheelEvent =
  ctrlKey :: bool
  metaKey :: bool
  pageX :: real
  pageY :: real
  deltaY :: real
  deltaMode :: nat

text \<open>
  What the component reads from its surroundings at each call: the container's bounding
  rectangle, the size of the child (the result of \<open>getElementSize\<close>), the scroll
  positions of \<open>_html\<close> and \<open>_body\<close>, and the platform test \<open>isMac\<close>.
\<close>

record host =
  rectTop :: real
  rectLeft :: real
  rectWidth :: real
  rectHeight :: real
  childWidth :: real
  childHeight :: real
  htmlScrollTop :: real
  htmlScrollLeft :: real
  bodyScrollTop :: real
  bodyScrollLeft :: real
  isMac :: bool

record props =
  animationDuration :: real
  draggableUnZoomed :: bool
  enabled :: bool
  inertia :: bool
  inertiaFriction :: real
  horizontalPadding :: real
  lockDragAxis :: bool
  maxZoom :: real
  minZoom :: real
  setOffsetsOnce :: bool
  shouldInterceptWheel :: "wheelEvent \<Rightarrow> bool"
  tapZoomFactor :: real
  verticalPadding :: real
  wheelScaleFactor :: real
  zoomOutFactor :: real

text \<open>The module-level default of the prop \<open>shouldInterceptWheel\<close>.\<close>

definition defaultShouldInterceptWheel :: "wheelEvent \<Rightarrow> bool" where
  "defaultShouldInterceptWheel event = (\<not> (ctrlKey event \<or> metaKey event))"

definition defaultProps :: props where
  "defaultProps = \<lparr>
     animationDuration = 250,
     draggableUnZoomed = True,
     enabled = True,
     inertia = True,
     inertiaFriction = 0.96,
     horizontalPadding = 0,
     lockDragAxis = False,
     maxZoom = 5,
     minZoom = 0.5,
     setOffsetsOnce = False,
     shouldInterceptWheel = defaultShouldInterceptWheel,
     tapZoomFactor = 1,
     verticalPadding = 0,
     wheelScaleFactor = 1500,
     zoomOutFactor = 1.3 \<rparr>"

text \<open>
  The value passed to \<open>onUpdate\<close>. Its \<open>x\<close> and \<open>y\<close> are quotients by the
  effective scale, non-finite when that scale is zero; the state is not touched by them.
\<close>

record updateAction =
  uScale :: real
  uX :: "fault + real"
  uY :: "fault + real"

text \<open>Calls that leave the component: the props' callbacks and the event's cancelling.\<close>

datatype effect =
    OnDoubleTap | OnDragEnd | OnDragStart | OnDragUpdate
  | OnZoomEnd | OnZoomStart | OnZoomUpdate
  | OnUpdate updateAction
  | CancelEvent

text \<open>
  The frame functions handed to \<open>_animate\<close>, one constructor for each closure of the
  source, with the variables the closure captures.
\<close>

datatype frameFn =
    DoubleTapFrame real real "point option"
  | ZoomOutFrame real point
  | SanitizeOffsetFrame point point
  | ScaleToFrame real real point point
  | InertiaFrame real real

datatype callback = NoCallback | SanitizeCallback

record animation =
  aFrameFn :: frameFn
  aStartTime :: int
  aDuration :: real
  aCallback :: callback

text \<open>
  The instance fields, without the leading underscore. \<open>animations\<close> holds the render
  loops whose next frame is requested, \<open>wheelTimeOut\<close> tells whether the settle timer
  of the wheel handler is pending, and \<open>trace\<close> lists the effects in order.
\<close>

record state =
  velocity :: "point option"
  prevDragMovePoint :: "point option"
  fingers :: nat
  firstMove :: bool
  hasInteraction :: bool
  inAnimation :: bool
  initialOffset :: point
  interaction :: "interaction option"
  isDoubleTap :: bool
  isOffsetsSet :: bool
  lastDragPosition :: "point option"
  lastScale :: real
  lastTouchStart :: int
  lastZoomCenter :: "point option"
  listenMouseMove :: bool
  nthZoom :: nat
  offset :: point
  startTouches :: "point list option"
  updatePlaned :: bool
  wheelTimeOut :: bool
  zoomFactor :: real
  initialZoomFactor :: real
  ignoreNextClick :: bool
  animations :: "animation list"
  trace :: "effect list"

definition initialState :: state where
  "initialState = \<lparr>
     velocity = None,
     prevDragMovePoint = None,
     fingers = 0,
     firstMove = True,
     hasInteraction = False,
     inAnimation = False,
     initialOffset = zeroPoint,
     interaction = None,
     isDoubleTap = False,
     isOffsetsSet = False,
     lastDragPosition = None,
     lastScale = 1,
     lastTouchStart = 0,
     lastZoomCenter = None,
     listenMouseMove = False,
     nthZoom = 0,
     offset = zeroPoint,
     startTouches = None,
     updatePlaned = False,
     wheelTimeOut = False,
     zoomFactor = 1,
     initialZoomFactor = 1,
     ignoreNextClick = False,
     animations = [],
     trace = [] \<rparr>"

definition emit :: "effect \<Rightarrow> state \<Rightarrow> state" where
  "emit e s = s\<lparr>trace := trace s @ [e]\<rparr>"

section \<open>Transform state\<close>

definition addOffset :: "point \<Rightarrow> state \<Rightarrow> state" where
  "addOffset d s =
     s\<lparr>offset := \<lparr>px = px (offset s) + px d, py = py (offset s) + py d\<rparr>\<rparr>"

text \<open>
  \<open>_scaleZoomFactor\<close>: the zoom factor is multiplied and clamped; the value returned is
  the quotient of the new factor by the old one.
\<close>

definition scaleZoomFactor :: "props \<Rightarrow> real \<Rightarrow> state \<Rightarrow> (fault + real) \<times> state" where
  "scaleZoomFactor p k s =
     (let originalZoomFactor = zoomFactor s;
          z = clamp (minZoom p) (maxZoom p) (zoomFactor s * k)
      in (jsdiv z originalZoomFactor, s\<lparr>zoomFactor := z\<rparr>))"

definition scale :: "props \<Rightarrow> real \<Rightarrow> point \<Rightarrow> state \<Rightarrow> fault + state" where
  "scale p k center s =
     (case scaleZoomFactor p k s of (r, s1) \<Rightarrow>
        andThen r (\<lambda>k'.
          Inr (emit OnZoomUpdate
            (addOffset \<lparr>px = (k' - 1) * (px center + px (offset s1)),
                        py = (k' - 1) * (py center + py (offset s1))\<rparr> s1))))"

text \<open>The private \<open>_scaleTo\<close> (the public \<open>scaleTo\<close> is a different method).\<close>

definition scaleTo' :: "props \<Rightarrow> real \<Rightarrow> point \<Rightarrow> state \<Rightarrow> fault + state" where
  "scaleTo' p z center s =
     andThen (jsdiv z (zoomFactor s)) (\<lambda>k. scale p k center s)"

definition canDrag :: "props \<Rightarrow> state \<Rightarrow> bool" where
  "canDrag p s = (draggableUnZoomed p \<or> \<not> isCloseTo (zoomFactor s) 1)"

definition drag :: "props \<Rightarrow> point \<Rightarrow> point option \<Rightarrow> state \<Rightarrow> state" where
  "drag p center lastCenter s =
     (case lastCenter of
        None \<Rightarrow> s
      | Some l \<Rightarrow>
          (let y = - (py center - py l);
               x = - (px center - px l);
               s1 = (if \<not> lockDragAxis p then addOffset \<lparr>px = x, py = y\<rparr> s
                     else if \<bar>x\<bar> > \<bar>y\<bar> then addOffset \<lparr>px = x, py = 0\<rparr> s
                     else addOffset \<lparr>px = 0, py = y\<rparr> s)
           in emit OnDragUpdate s1))"

section \<open>Boundary sanitizer\<close>

definition sanitizeOffset :: "props \<Rightarrow> host \<Rightarrow> state \<Rightarrow> point \<Rightarrow> point" where
  "sanitizeOffset p h s off =
     (let elWidth = childWidth h * initialZoomFactor s * zoomFactor s;
          elHeight = childHeight h * initialZoomFactor s * zoomFactor s;
          maxX = elWidth - rectWidth h + horizontalPadding p;
          maxY = elHeight - rectHeight h + verticalPadding p;
          maxOffsetX = max maxX 0;
          maxOffsetY = max maxY 0;
          minOffsetX = min maxX 0 - horizontalPadding p;
          minOffsetY = min maxY 0 - verticalPadding p
      in \<lparr>px = clamp minOffsetX maxOffsetX (px off),
          py = clamp minOffsetY maxOffsetY (py off)\<rparr>)"

definition isInsaneOffset :: "props \<Rightarrow> host \<Rightarrow> state \<Rightarrow> bool" where
  "isInsaneOffset p h s =
     (let off = offset s; sanitizedOffset = sanitizeOffset p h s off
      in px sanitizedOffset \<noteq> px off \<or> py sanitizedOffset \<noteq> py off)"

text \<open>The scaled size of the content, \<open>elWidth\<close> and \<open>elHeight\<close> in \<open>_sanitizeOffset\<close>.\<close>

abbreviation elWidth :: "host \<Rightarrow> state \<Rightarrow> real" where
  "elWidth h s \<equiv> childWidth h * initialZoomFactor s * zoomFactor s"

abbreviation elHeight :: "host \<Rightarrow> state \<Rightarrow> real" where
  "elHeight h s \<equiv> childHeight h * initialZoomFactor s * zoomFactor s"

text \<open>
  \<open>_getCurrentZoomCenter\<close> divides twice. At zoom factor 0 the inner quotient \<open>1 / 0\<close>
  is infinite and each outer quotient, a finite number by an infinite one, is zero, so the
  result is finite. At zoom factor 1 the outer divisor is zero.
\<close>

definition getCurrentZoomCenter :: "state \<Rightarrow> fault + point" where
  "getCurrentZoomCenter s =
     (let x = px (offset s); y = py (offset s);
          offsetLeft = x - px (initialOffset s);
          offsetTop = y - py (initialOffset s)
      in if zoomFactor s = 0 then Inr \<lparr>px = -1 * x - 0, py = -1 * y - 0\<rparr>
         else
           andThen (jsdiv offsetLeft (1 / zoomFactor s - 1)) (\<lambda>qx.
           andThen (jsdiv offsetTop (1 / zoomFactor s - 1)) (\<lambda>qy.
             Inr \<lparr>px = -1 * x - qx, py = -1 * y - qy\<rparr>)))"

definition getOffsetTouches :: "host \<Rightarrow> touchEvent \<Rightarrow> point list" where
  "getOffsetTouches h event =
     (let scrollTop = (if htmlScrollTop h \<noteq> 0 then htmlScrollTop h else bodyScrollTop h);
          scrollLeft = (if htmlScrollLeft h \<noteq> 0 then htmlScrollLeft h else bodyScrollLeft h);
          posTop = rectTop h + scrollTop;
          posLeft = rectLeft h + scrollLeft
      in map (\<lambda>t. \<lparr>px = px t - posLeft, py = py t - posTop\<rparr>) (touches event))"

text \<open>Element 0 of the array: \<open>None\<close> stands for \<open>undefined\<close>.\<close>

definition getOffsetByFirstTouch :: "host \<Rightarrow> touchEvent \<Rightarrow> point option" where
  "getOffsetByFirstTouch h event =
     (case getOffsetTouches h event of [] \<Rightarrow> None | t # ts \<Rightarrow> Some t)"

section \<open>Output and animation driver\<close>

definition updateFrame :: "state \<Rightarrow> updateAction" where
  "updateFrame s =
     (let sc = initialZoomFactor s * zoomFactor s
      in \<lparr>uScale = sc, uX = jsdiv (- px (offset s)) sc, uY = jsdiv (- py (offset s)) sc\<rparr>)"

text \<open>
  \<open>_update\<close>: the argument tells whether \<open>options.isAnimation\<close> is set. Without it the
  emission is left to a requested frame, which is \<open>updateTick\<close>.
\<close>

definition update :: "bool \<Rightarrow> state \<Rightarrow> state" where
  "update isAnimation s =
     (if updatePlaned s then s
      else if isAnimation then emit (OnUpdate (updateFrame s)) s
      else s\<lparr>updatePlaned := True\<rparr>)"

definition updateTick :: "state \<Rightarrow> state" where
  "updateTick s = (let s1 = s\<lparr>updatePlaned := False\<rparr> in emit (OnUpdate (updateFrame s1)) s1)"

definition stopAnimation :: "state \<Rightarrow> state" where
  "stopAnimation s = s\<lparr>inAnimation := False\<rparr>"

text \<open>
  \<open>_animate\<close>: the options \<open>callback\<close> and \<open>duration\<close> are optional; the time function
  is always \<open>swing\<close>. \<open>now\<close> is the clock read by \<open>new Date().getTime()\<close>.
\<close>

definition animate ::
  "props \<Rightarrow> int \<Rightarrow> frameFn \<Rightarrow> callback option \<Rightarrow> real option \<Rightarrow> state \<Rightarrow> state" where
  "animate p now f cb dur s =
     (let a = \<lparr>aFrameFn = f, aStartTime = now,
               aDuration = (case dur of None \<Rightarrow> animationDuration p | Some d \<Rightarrow> d),
               aCallback = (case cb of None \<Rightarrow> NoCallback | Some c \<Rightarrow> c)\<rparr>
      in s\<lparr>inAnimation := True, animations := animations s @ [a]\<rparr>)"

definition sanitizeOffsetAnimation :: "props \<Rightarrow> host \<Rightarrow> int \<Rightarrow> state \<Rightarrow> state" where
  "sanitizeOffsetAnimation p h now s =
     (let targetOffset = sanitizeOffset p h s (offset s);
          startOffset = offset s
      in animate p now (SanitizeOffsetFrame startOffset targetOffset) None None s)"

definition zoomOutAnimation :: "props \<Rightarrow> int \<Rightarrow> state \<Rightarrow> fault + state" where
  "zoomOutAnimation p now s =
     (if zoomFactor s = 1 then Inr s
      else
        (let startZoomFactor = zoomFactor s
         in andThen (getCurrentZoomCenter s) (\<lambda>center.
              Inr (animate p now (ZoomOutFrame startZoomFactor center) None None s))))"

definition sanitize :: "props \<Rightarrow> host \<Rightarrow> int \<Rightarrow> state \<Rightarrow> fault + state" where
  "sanitize p h now s =
     (if zoomFactor s < zoomOutFactor p then zoomOutAnimation p now s
      else if isInsaneOffset p h s then Inr (sanitizeOffsetAnimation p h now s)
      else Inr s)"

definition pz_end :: "props \<Rightarrow> host \<Rightarrow> int \<Rightarrow> state \<Rightarrow> fault + state" where
  "pz_end p h now s =
     andThen (sanitize p h now (s\<lparr>hasInteraction := False\<rparr>)) (\<lambda>s1. Inr (update False s1))"

text \<open>
  One call of a frame function with a progress value. The inertia closure also updates
  its own variables \<open>x\<close> and \<open>y\<close>, so the frame function is returned as well.
\<close>

fun applyFrame :: "props \<Rightarrow> host \<Rightarrow> frameFn \<Rightarrow> real \<Rightarrow> state \<Rightarrow> fault + (frameFn \<times> state)" where
  "applyFrame p h (DoubleTapFrame startZoomFactor z center) progress s =
     (case center of
        None \<Rightarrow> Inl TypeError
      | Some c \<Rightarrow>
          andThen (scaleTo' p (startZoomFactor + progress * (z - startZoomFactor)) c s)
            (\<lambda>s1. Inr (DoubleTapFrame startZoomFactor z center, s1)))"
| "applyFrame p h (ZoomOutFrame startZoomFactor center) progress s =
     (let scaleFactor = startZoomFactor + progress * (1 - startZoomFactor)
      in andThen (scaleTo' p scaleFactor center s)
           (\<lambda>s1. Inr (ZoomOutFrame startZoomFactor center, s1)))"
| "applyFrame p h (SanitizeOffsetFrame startOffset targetOffset) progress s =
     (let x = px startOffset + progress * (px targetOffset - px startOffset);
          y = py startOffset + progress * (py targetOffset - py startOffset)
      in Inr (SanitizeOffsetFrame startOffset targetOffset,
              update False (s\<lparr>offset := \<lparr>px = x, py = y\<rparr>\<rparr>)))"
| "applyFrame p h (ScaleToFrame startZoomFactor diffZoomFactor startOffset diffOffset) progress s =
     (let x = px startOffset + px diffOffset * progress;
          y = py startOffset + py diffOffset * progress
      in Inr (ScaleToFrame startZoomFactor diffZoomFactor startOffset diffOffset,
              update False (s\<lparr>zoomFactor := startZoomFactor + diffZoomFactor * progress,
                               offset := \<lparr>px = x, py = y\<rparr>\<rparr>)))"
| "applyFrame p h (InertiaFrame x0 y0) progress s =
     (let x = x0 * inertiaFriction p; y = y0 * inertiaFriction p
      in if x = 0 \<and> y = 0 then Inr (InertiaFrame x y, stopAnimation s)
         else
           (let prevOffset = offset s;
                s1 = addOffset \<lparr>px = x, py = y\<rparr> s;
                s2 = s1\<lparr>offset := sanitizeOffset p h s1 (offset s1)\<rparr>
            in if comparePoints prevOffset (offset s2) then Inr (InertiaFrame x y, stopAnimation s2)
               else Inr (InertiaFrame x y, update True s2)))"

definition runCallback :: "props \<Rightarrow> host \<Rightarrow> int \<Rightarrow> callback \<Rightarrow> state \<Rightarrow> fault + state" where
  "runCallback p h now cb s =
     (case cb of NoCallback \<Rightarrow> Inr s | SanitizeCallback \<Rightarrow> sanitize p h now s)"

text \<open>
  One run of the closure \<open>renderFrame\<close> of \<open>_animate\<close> for the loop \<open>a\<close>, at clock
  \<open>now\<close>. The loop is returned when it has requested its next frame.
\<close>

definition renderFrame ::
  "props \<Rightarrow> host \<Rightarrow> int \<Rightarrow> animation \<Rightarrow> state \<Rightarrow> fault + (animation option \<times> state)" where
  "renderFrame p h now a s =
     (if \<not> inAnimation s then Inr (None, s)
      else
        (let frameTime = real_of_int (now - aStartTime a)
         in if frameTime \<ge> aDuration a then
              andThen (applyFrame p h (aFrameFn a) 1 s) (\<lambda>(f, s1).
              andThen (runCallback p h now (aCallback a) (stopAnimation s1)) (\<lambda>s2.
                Inr (None, update False s2)))
            else
              andThen (jsdiv frameTime (aDuration a)) (\<lambda>progress.
              andThen (applyFrame p h (aFrameFn a) (swing progress) s) (\<lambda>(f, s1).
                Inr (Some (a\<lparr>aFrameFn := f\<rparr>), update True s1)))))"

text \<open>The frame callback of the oldest pending loop.\<close>

definition tick :: "props \<Rightarrow> host \<Rightarrow> int \<Rightarrow> state \<Rightarrow> fault + state" where
  "tick p h now s =
     (case animations s of
        [] \<Rightarrow> Inr s
      | a # rest \<Rightarrow>
          andThen (renderFrame p h now a (s\<lparr>animations := rest\<rparr>)) (\<lambda>(a', s1).
            Inr (case a' of None \<Rightarrow> s1 | Some a2 \<Rightarrow> s1\<lparr>animations := animations s1 @ [a2]\<rparr>)))"

section \<open>Gesture interpreter\<close>

definition resetInertia :: "state \<Rightarrow> state" where
  "resetInertia s = s\<lparr>velocity := None, prevDragMovePoint := None\<rparr>"

text \<open>
  \<open>_handleDrag\<close>: with no touch the point is \<open>undefined\<close>; \<open>_drag\<close> reads it only when
  the last drag position is set.
\<close>

definition handleDrag :: "props \<Rightarrow> host \<Rightarrow> touchEvent \<Rightarrow> state \<Rightarrow> fault + state" where
  "handleDrag p h event s =
     (case getOffsetByFirstTouch h event of
        None \<Rightarrow>
          (case lastDragPosition s of
             None \<Rightarrow> Inr (s\<lparr>offset := sanitizeOffset p h s (offset s), lastDragPosition := None\<rparr>)
           | Some l \<Rightarrow> Inl TypeError)
      | Some touch \<Rightarrow>
          (let s1 = drag p touch (lastDragPosition s) s
           in Inr (s1\<lparr>offset := sanitizeOffset p h s1 (offset s1),
                      lastDragPosition := Some touch\<rparr>)))"

definition handleDragStart :: "props \<Rightarrow> host \<Rightarrow> touchEvent \<Rightarrow> state \<Rightarrow> fault + state" where
  "handleDragStart p h event s =
     (let s1 = emit OnDragStart (s\<lparr>ignoreNextClick := True\<rparr>);
          s2 = resetInertia (stopAnimation s1);
          s3 = s2\<lparr>lastDragPosition := None, hasInteraction := True\<rparr>
      in handleDrag p h event s3)"

definition realizeInertia :: "props \<Rightarrow> int \<Rightarrow> state \<Rightarrow> state" where
  "realizeInertia p now s =
     (if \<not> inertia p then s
      else
        (case velocity s of
           None \<Rightarrow> s
         | Some v \<Rightarrow>
             (let x = px v; y = py v
              in if x \<noteq> 0 \<or> y \<noteq> 0
                 then animate p now (InertiaFrame x y) None (Some 9999)
                        (resetInertia (stopAnimation s))
                 else s)))"

definition collectInertia :: "props \<Rightarrow> touchEvent \<Rightarrow> state \<Rightarrow> fault + state" where
  "collectInertia p event s =
     (if \<not> inertia p then Inr s
      else
        (case touches event of
           [] \<Rightarrow>
             (case prevDragMovePoint s of
                None \<Rightarrow> Inr (s\<lparr>prevDragMovePoint := None\<rparr>)
              | Some prevPoint \<Rightarrow> Inl TypeError)
         | currentCoordinates # ts \<Rightarrow>
             (let s1 = (case prevDragMovePoint s of
                          None \<Rightarrow> s
                        | Some prevPoint \<Rightarrow>
                            s\<lparr>velocity := Some (calculateVelocity currentCoordinates prevPoint)\<rparr>)
              in Inr (s1\<lparr>prevDragMovePoint := Some currentCoordinates\<rparr>))))"

definition handleDragEnd :: "props \<Rightarrow> host \<Rightarrow> int \<Rightarrow> state \<Rightarrow> fault + state" where
  "handleDragEnd p h now s =
     andThen (pz_end p h now (emit OnDragEnd s)) (\<lambda>s1. Inr (realizeInertia p now s1))"

definition handleZoomStart :: "state \<Rightarrow> state" where
  "handleZoomStart s =
     (let s1 = stopAnimation (emit OnZoomStart s)
      in s1\<lparr>lastScale := 1, nthZoom := 0, lastZoomCenter := None, hasInteraction := True\<rparr>)"

definition handleZoom :: "props \<Rightarrow> host \<Rightarrow> touchEvent \<Rightarrow> real \<Rightarrow> state \<Rightarrow> fault + state" where
  "handleZoom p h event newScale s =
     andThen (getVectorAvg (getOffsetTouches h event)) (\<lambda>touchCenter.
     andThen (jsdiv newScale (lastScale s)) (\<lambda>k.
       (let s1 = s\<lparr>lastScale := newScale, nthZoom := nthZoom s + 1\<rparr>
        in andThen
             (if nthZoom s1 > 3
              then andThen (scale p k touchCenter s1)
                     (\<lambda>s2. Inr (drag p touchCenter (lastZoomCenter s2) s2))
              else Inr s1)
             (\<lambda>s3. Inr (s3\<lparr>lastZoomCenter := Some touchCenter\<rparr>)))))"

definition handleZoomEnd :: "props \<Rightarrow> host \<Rightarrow> int \<Rightarrow> state \<Rightarrow> fault + state" where
  "handleZoomEnd p h now s = pz_end p h now (emit OnZoomEnd s)"

definition handleDoubleTap :: "props \<Rightarrow> host \<Rightarrow> int \<Rightarrow> touchEvent \<Rightarrow> state \<Rightarrow> fault + state" where
  "handleDoubleTap p h now event s =
     (if hasInteraction s then Inr s
      else
        (let s1 = (emit OnDoubleTap s)\<lparr>ignoreNextClick := True\<rparr>;
             z = zoomFactor s1 + tapZoomFactor p;
             startZoomFactor = zoomFactor s1;
             center = getOffsetByFirstTouch h event;
             s2 = s1\<lparr>isDoubleTap := True\<rparr>
         in andThen
              (if startZoomFactor > z
               then andThen (getCurrentZoomCenter s2) (\<lambda>c. Inr (Some c))
               else Inr center)
              (\<lambda>center'. Inr (animate p now (DoubleTapFrame startZoomFactor z center') None None s2))))"

text \<open>
  \<open>_setInteraction\<close>: the end handler of the old interaction runs only when the new
  interaction is \<open>null\<close>.
\<close>

definition setInteraction ::
  "props \<Rightarrow> host \<Rightarrow> int \<Rightarrow> interaction option \<Rightarrow> touchEvent \<Rightarrow> state \<Rightarrow> fault + state" where
  "setInteraction p h now newInteraction event s =
     (let old = interaction s
      in andThen
           (if old \<noteq> newInteraction then
              andThen
                (if old \<noteq> None \<and> newInteraction = None then
                   (if isZoomInteraction old then handleZoomEnd p h now s
                    else if isDragInteraction old then handleDragEnd p h now s
                    else Inr s)
                 else Inr s)
                (\<lambda>s1.
                   if isZoomInteraction newInteraction then Inr (handleZoomStart s1)
                   else if isDragInteraction newInteraction then handleDragStart p h event s1
                   else Inr s1)
            else Inr s)
           (\<lambda>s2. Inr (s2\<lparr>interaction := newInteraction\<rparr>)))"

definition updateInteraction :: "props \<Rightarrow> host \<Rightarrow> int \<Rightarrow> touchEvent \<Rightarrow> state \<Rightarrow> fault + state" where
  "updateInteraction p h now event s =
     (if fingers s = 2 then setInteraction p h now (Some Zoom) event s
      else if fingers s = 1 \<and> canDrag p s then setInteraction p h now (Some Drag) event s
      else setInteraction p h now None event s)"

definition detectDoubleTap :: "props \<Rightarrow> host \<Rightarrow> int \<Rightarrow> touchEvent \<Rightarrow> state \<Rightarrow> fault + state" where
  "detectDoubleTap p h now event s =
     (let time = now;
          s1 = (if fingers s > 1 then s\<lparr>lastTouchStart := 0\<rparr> else s)
      in andThen
           (if time - lastTouchStart s1 < 300 then
              andThen (handleDoubleTap p h now event (emit CancelEvent s1)) (\<lambda>s2.
                if isZoomInteraction (interaction s2) then handleZoomEnd p h now s2
                else if isDragInteraction (interaction s2) then handleDragEnd p h now s2
                else Inr s2)
            else Inr (s1\<lparr>isDoubleTap := False\<rparr>))
           (\<lambda>s3. Inr (if fingers s3 = 1 then s3\<lparr>lastTouchStart := time\<rparr> else s3)))"

definition handlerOnTouchEnd :: "props \<Rightarrow> host \<Rightarrow> int \<Rightarrow> touchEvent \<Rightarrow> state \<Rightarrow> fault + state" where
  "handlerOnTouchEnd p h now event s =
     (if enabled p
      then updateInteraction p h now event (s\<lparr>fingers := length (touches event)\<rparr>)
      else Inr s)"

definition handlerOnTouchStart :: "props \<Rightarrow> host \<Rightarrow> int \<Rightarrow> touchEvent \<Rightarrow> state \<Rightarrow> fault + state" where
  "handlerOnTouchStart p h now event s =
     (if enabled p
      then detectDoubleTap p h now event
             (s\<lparr>firstMove := True, fingers := length (touches event)\<rparr>)
      else Inr s)"

text \<open>The zoom branch of \<open>_handlerOnTouchMove\<close> after the first move.\<close>

definition zoomMove :: "props \<Rightarrow> host \<Rightarrow> touchEvent \<Rightarrow> state \<Rightarrow> fault + state" where
  "zoomMove p h event s =
     (case startTouches s of
        None \<Rightarrow> Inr s
      | Some st \<Rightarrow>
          if length st = 2 \<and> length (touches event) = 2
          then andThen (calculateScale st (touches event))
                 (\<lambda>newScale. handleZoom p h event newScale s)
          else Inr s)"

definition handlerOnTouchMove :: "props \<Rightarrow> host \<Rightarrow> int \<Rightarrow> touchEvent \<Rightarrow> state \<Rightarrow> fault + state" where
  "handlerOnTouchMove p h now event s =
     (if \<not> enabled p then Inr s
      else if isDoubleTap s then Inr s
      else
        andThen (collectInertia p event s) (\<lambda>s1.
        andThen
          (if firstMove s1 then
             andThen (updateInteraction p h now event s1) (\<lambda>s2.
               (let s3 = (if interaction s2 \<noteq> None then emit CancelEvent s2 else s2)
                in Inr (s3\<lparr>startTouches := Some (touches event)\<rparr>)))
           else
             andThen
               (if isZoomInteraction (interaction s1) then zoomMove p h event s1
                else if isDragInteraction (interaction s1) then handleDrag p h event s1
                else Inr s1)
               (\<lambda>s2. Inr (if interaction s2 \<noteq> None then update False (emit CancelEvent s2)
                           else s2)))
          (\<lambda>s4. Inr (s4\<lparr>firstMove := False\<rparr>))))"

subsection \<open>Wheel input\<close>

definition isZoomGesture :: "host \<Rightarrow> wheelEvent \<Rightarrow> bool" where
  "isZoomGesture h event = (isMac h \<and> ctrlKey event)"

text \<open>
  \<open>_handlerWheel\<close> returns at once when the prop \<open>shouldInterceptWheel\<close> yields true.
\<close>

definition handlerWheel :: "props \<Rightarrow> host \<Rightarrow> wheelEvent \<Rightarrow> state \<Rightarrow> fault + state" where
  "handlerWheel p h event s =
     (if shouldInterceptWheel p event then Inr s
      else
        (let s1 = emit CancelEvent s;
             scaleDelta = (if isZoomGesture h event \<or> deltaMode event = 1 then 15 else 1);
             likeTouchEvent = \<lparr>touches = [\<lparr>px = pageX event, py = pageY event\<rparr>]\<rparr>
         in case getOffsetByFirstTouch h likeTouchEvent of
              None \<Rightarrow> Inl TypeError
            | Some center \<Rightarrow>
                (let dScale = deltaY event * scaleDelta
                 in andThen (jsdiv dScale (wheelScaleFactor p)) (\<lambda>q.
                    andThen (scaleTo' p (zoomFactor s1 - q) center (stopAnimation s1)) (\<lambda>s2.
                      Inr ((update False s2)\<lparr>wheelTimeOut := True\<rparr>))))))"

text \<open>The timer set by the wheel handler, when it fires.\<close>

definition wheelTimer :: "props \<Rightarrow> host \<Rightarrow> int \<Rightarrow> state \<Rightarrow> fault + state" where
  "wheelTimer p h now s = sanitize p h now (s\<lparr>wheelTimeOut := False\<rparr>)"

subsection \<open>Resize\<close>

text \<open>
  \<open>_updateInitialZoomFactor\<close> divides the container's size by the child's size, which is
  zero when \<open>getElementSize\<close> finds nothing to measure.
\<close>

definition updateInitialZoomFactor :: "host \<Rightarrow> state \<Rightarrow> fault + state" where
  "updateInitialZoomFactor h s =
     andThen (jsdiv (rectWidth h) (childWidth h)) (\<lambda>xZoomFactor.
     andThen (jsdiv (rectHeight h) (childHeight h)) (\<lambda>yZoomFactor.
       Inr (s\<lparr>initialZoomFactor := min xZoomFactor yZoomFactor\<rparr>)))"

definition computeInitialOffset :: "host \<Rightarrow> state \<Rightarrow> state" where
  "computeInitialOffset h s =
     (let x = - \<bar>childWidth h * initialZoomFactor s - rectWidth h\<bar> / 2;
          y = - \<bar>childHeight h * initialZoomFactor s - rectHeight h\<bar> / 2
      in s\<lparr>initialOffset := \<lparr>px = x, py = y\<rparr>\<rparr>)"

definition resetOffset :: "state \<Rightarrow> state" where
  "resetOffset s = s\<lparr>offset := initialOffset s\<rparr>"

definition setupOffsets :: "props \<Rightarrow> host \<Rightarrow> state \<Rightarrow> state" where
  "setupOffsets p h s =
     (if setOffsetsOnce p \<and> isOffsetsSet s then s
      else resetOffset (computeInitialOffset h (s\<lparr>isOffsetsSet := True\<rparr>)))"

definition onResize :: "props \<Rightarrow> host \<Rightarrow> state \<Rightarrow> fault + state" where
  "onResize p h s =
     andThen (updateInitialZoomFactor h s) (\<lambda>s1. Inr (update False (setupOffsets p h s1)))"

subsection \<open>The public command \<open>scaleTo\<close>\<close>

record scaleToOptions =
  optX :: real
  optY :: real
  optScale :: real
  optAnimated :: "bool option"
  optDuration :: "real option"

definition scaleTo :: "props \<Rightarrow> int \<Rightarrow> scaleToOptions \<Rightarrow> state \<Rightarrow> fault + state" where
  "scaleTo p now options s =
     (let animated = (case optAnimated options of None \<Rightarrow> True | Some b \<Rightarrow> b);
          duration = (case optDuration options of None \<Rightarrow> 250 | Some d \<Rightarrow> d);
          startZoomFactor = zoomFactor s;
          startOffset = offset s;
          s1 = s\<lparr>zoomFactor := 1, offset := \<lparr>px = 0, py = 0\<rparr>\<rparr>
      in andThen (scaleTo' p (optScale options) \<lparr>px = optX options, py = optY options\<rparr> s1) (\<lambda>s2.
           (let s3 = stopAnimation s2
            in if \<not> animated then Inr (update False s3)
               else
                 (let diffZoomFactor = zoomFactor s3 - startZoomFactor;
                      diffOffset = \<lparr>px = px (offset s3) - px startOffset,
                                    py = py (offset s3) - py startOffset\<rparr>;
                      s4 = s3\<lparr>zoomFactor := startZoomFactor, offset := startOffset\<rparr>
                  in Inr (animate p now
                            (ScaleToFrame startZoomFactor diffZoomFactor startOffset diffOffset)
                            (Some SanitizeCallback) (Some duration) s4)))))"

section \<open>The zoom factor beyond the finite numbers\<close>

text \<open>
  Where a divisor is zero JavaScript goes on with \<open>Infinity\<close> or \<open>NaN\<close>. For the zoom
  factor this is followed here. \<open>jsnum\<close> is a JavaScript number, without rounding and
  without the sign of zero. \<open>quotientX\<close> is \<open>a / b\<close> for finite \<open>a\<close> and \<open>b\<close>; a zero
  divisor is taken as \<open>+0\<close>, which is what \<open>_lastScale\<close>, a quotient of distances, can
  be. \<open>timesX\<close> is the product \<open>z * k\<close> for a finite \<open>z\<close>. \<open>lessX\<close> and \<open>greaterX\<close>
  are the comparisons \<open><\<close> and \<open>>\<close> with a finite right-hand side; both are false on
  \<open>NaN\<close>. \<open>clampX\<close> is the function \<open>clamp\<close> of the source on these numbers.
\<close>

datatype jsnum = Finite real | PosInfinity | NegInfinity | NaN

definition quotientX :: "real \<Rightarrow> real \<Rightarrow> jsnum" where
  "quotientX a b =
     (if b \<noteq> 0 then Finite (a / b)
      else if a = 0 then NaN
      else if a > 0 then PosInfinity
      else NegInfinity)"

fun timesX :: "real \<Rightarrow> jsnum \<Rightarrow> jsnum" where
  "timesX z (Finite k) = Finite (z * k)"
| "timesX z PosInfinity = (if z = 0 then NaN else if z > 0 then PosInfinity else NegInfinity)"
| "timesX z NegInfinity = (if z = 0 then NaN else if z > 0 then NegInfinity else PosInfinity)"
| "timesX z NaN = NaN"

fun lessX :: "jsnum \<Rightarrow> real \<Rightarrow> bool" where
  "lessX (Finite v) m = (v < m)"
| "lessX NegInfinity m = True"
| "lessX PosInfinity m = False"
| "lessX NaN m = False"

fun greaterX :: "jsnum \<Rightarrow> real \<Rightarrow> bool" where
  "greaterX (Finite v) m = (v > m)"
| "greaterX PosInfinity m = True"
| "greaterX NegInfinity m = False"
| "greaterX NaN m = False"

definition clampX :: "real \<Rightarrow> real \<Rightarrow> jsnum \<Rightarrow> jsnum" where
  "clampX lo hi v = (if lessX v lo then Finite lo else if greaterX v hi then Finite hi else v)"

text \<open>
  The value that \<open>_scaleZoomFactor(scale)\<close> leaves in \<open>_zoomFactor\<close>, from a finite zoom
  factor \<open>z\<close> and for any scale: \<open>this._zoomFactor *= scale\<close>, then the clamp.
\<close>

definition zoomFactorAfter :: "props \<Rightarrow> jsnum \<Rightarrow> real \<Rightarrow> jsnum" where
  "zoomFactorAfter p k z = clampX (minZoom p) (maxZoom p) (timesX z k)"

section \<open>Runs\<close>

text \<open>
  The operations that reach \<open>_scaleZoomFactor\<close>: a pinch step (\<open>_handleZoom\<close>), a wheel
  event, a frame of the double-tap animation or of the zoom-out animation of settle, and
  the public \<open>scaleTo\<close>. \<open>scaleRun\<close> lists the states after each operation of a sequence;
  it is a fault when an operation of the sequence is one.
\<close>

datatype scaleOp =
    PinchStep touchEvent real
  | WheelStep wheelEvent
  | DoubleTapStep real real "point option" real
  | ZoomOutStep real point real
  | ScaleToStep scaleToOptions

fun scaleStep :: "props \<Rightarrow> host \<Rightarrow> int \<Rightarrow> scaleOp \<Rightarrow> state \<Rightarrow> fault + state" where
  "scaleStep p h now (PinchStep event newScale) s = handleZoom p h event newScale s"
| "scaleStep p h now (WheelStep event) s = handlerWheel p h event s"
| "scaleStep p h now (DoubleTapStep startZoomFactor z center progress) s =
     andThen (applyFrame p h (DoubleTapFrame startZoomFactor z center) progress s)
       (\<lambda>(f, s1). Inr s1)"
| "scaleStep p h now (ZoomOutStep startZoomFactor center progress) s =
     andThen (applyFrame p h (ZoomOutFrame startZoomFactor center) progress s)
       (\<lambda>(f, s1). Inr s1)"
| "scaleStep p h now (ScaleToStep options) s = scaleTo p now options s"

fun scaleRun :: "props \<Rightarrow> host \<Rightarrow> (int \<times> scaleOp) list \<Rightarrow> state \<Rightarrow> fault + state list" where
  "scaleRun p h [] s = Inr []"
| "scaleRun p h ((now, operation) # ops) s =
     andThen (scaleStep p h now operation s) (\<lambda>s1.
     andThen (scaleRun p h ops s1) (\<lambda>ss. Inr (s1 # ss)))"

text \<open>
  Frame callbacks at the clock values given, in order. Each is the callback of the oldest
  pending loop, which goes to the back of the queue when it requests its next frame, so
  loops that are pending together take turns and all read the one flag \<open>_inAnimation\<close>.
\<close>

fun ticks :: "props \<Rightarrow> host \<Rightarrow> int list \<Rightarrow> state \<Rightarrow> fault + state" where
  "ticks p h [] s = Inr s"
| "ticks p h (t # ts) s = andThen (tick p h t s) (ticks p h ts)"


text \<open>A tap with one finger at a page point: touch start, then touch end with no touch left.\<close>

definition tap :: "props \<Rightarrow> host \<Rightarrow> int \<Rightarrow> point \<Rightarrow> state \<Rightarrow> fault + state" where
  "tap p h now pt s =
     andThen (handlerOnTouchStart p h now \<lparr>touches = [pt]\<rparr> s) (\<lambda>s1.
       handlerOnTouchEnd p h now \<lparr>touches = []\<rparr> s1)"

text \<open>A tap, then frame callbacks at the clock values given.\<close>

definition tapRun :: "props \<Rightarrow> host \<Rightarrow> int \<Rightarrow> point \<Rightarrow> int list \<Rightarrow> state \<Rightarrow> fault + state" where
  "tapRun p h now pt ts s = andThen (tap p h now pt s) (ticks p h ts)"

section \<open>Quantities of the specification\<close>

text \<open>
  The content point under a container coordinate, as the specification writes it:
  \<open>(center + offset) / (initialZoomFactor * zoomFactor)\<close>.
\<close>

definition contentPoint :: "state \<Rightarrow> point \<Rightarrow> fault + point" where
  "contentPoint s center =
     andThen (jsdiv (px center + px (offset s)) (initialZoomFactor s * zoomFactor s)) (\<lambda>cx.
     andThen (jsdiv (py center + py (offset s)) (initialZoomFactor s * zoomFactor s)) (\<lambda>cy.
       Inr \<lparr>px = cx, py = cy\<rparr>))"

text \<open>
  The offset bounds as the specification writes them:
  \<open>maxX = max(elW - containerWidth + hPadding, 0)\<close> and
  \<open>minX = min(elW - containerWidth, 0) - hPadding\<close>, the same for \<open>y\<close>.
\<close>

definition specSanitizeOffset :: "props \<Rightarrow> host \<Rightarrow> state \<Rightarrow> point \<Rightarrow> point" where
  "specSanitizeOffset p h s off =
     (let elW = childWidth h * initialZoomFactor s * zoomFactor s;
          elH = childHeight h * initialZoomFactor s * zoomFactor s;
          maxX = max (elW - rectWidth h + horizontalPadding p) 0;
          minX = min (elW - rectWidth h) 0 - horizontalPadding p;
          maxY = max (elH - rectHeight h + verticalPadding p) 0;
          minY = min (elH - rectHeight h) 0 - verticalPadding p
      in \<lparr>px = clamp minX maxX (px off), py = clamp minY maxY (py off)\<rparr>)"


text \<open>The zoom factor is within the configured range.\<close>

definition zoomInRange :: "props \<Rightarrow> state \<Rightarrow> bool" where
  "zoomInRange p s = (minZoom p \<le> zoomFactor s \<and> zoomFactor s \<le> maxZoom p)"

section \<open>Example inputs\<close>

subsection \<open>Hosts and props\<close>

text \<open>A host with a container of 200 by 200 at the page origin and a child of 100 by 100.\<close>

definition exampleHost :: host where
  "exampleHost = \<lparr>
     rectTop = 0, rectLeft = 0, rectWidth = 200, rectHeight = 200,
     childWidth = 100, childHeight = 100,
     htmlScrollTop = 0, htmlScrollLeft = 0, bodyScrollTop = 0, bodyScrollLeft = 0,
     isMac = False \<rparr>"

text \<open>A host whose child fills its container of 200 by 200.\<close>

definition fitHost :: host where
  "fitHost = \<lparr>
     rectTop = 0, rectLeft = 0, rectWidth = 200, rectHeight = 200,
     childWidth = 200, childHeight = 200,
     htmlScrollTop = 0, htmlScrollLeft = 0, bodyScrollTop = 0, bodyScrollLeft = 0,
     isMac = False \<rparr>"

text \<open>The default props with one prop changed.\<close>

definition lockProps :: props where
  "lockProps = defaultProps\<lparr>lockDragAxis := True\<rparr>"

definition padProps :: props where
  "padProps = defaultProps\<lparr>horizontalPadding := 20\<rparr>"

definition zeroMinProps :: props where
  "zeroMinProps = defaultProps\<lparr>minZoom := 0\<rparr>"

subsection \<open>Wheel events and scale operations\<close>

text \<open>A wheel event with ctrl held and one with no key held.\<close>

definition ctrlWheel :: wheelEvent where
  "ctrlWheel = \<lparr>ctrlKey = True, metaKey = False, pageX = 10, pageY = 10,
                deltaY = -150, deltaMode = 0\<rparr>"

definition plainWheel :: wheelEvent where
  "plainWheel = \<lparr>ctrlKey = False, metaKey = False, pageX = 10, pageY = 10,
                 deltaY = -150, deltaMode = 0\<rparr>"

text \<open>A wheel event with ctrl held, then \<open>scaleTo\<close> with scale 9 and no animation.\<close>

definition exampleOps :: "(int \<times> scaleOp) list" where
  "exampleOps =
     [(0, WheelStep ctrlWheel),
      (5, ScaleToStep \<lparr>optX = 0, optY = 0, optScale = 9, optAnimated = Some False,
                        optDuration = None\<rparr>)]"

subsection \<open>States\<close>

text \<open>States in the zoom interaction, after the first move, with their start touches.\<close>

definition coincidentState :: state where
  "coincidentState =
     initialState\<lparr>interaction := Some Zoom, firstMove := False, fingers := 2,
       hasInteraction := True,
       startTouches := Some [\<lparr>px = 5, py = 5\<rparr>, \<lparr>px = 5, py = 5\<rparr>]\<rparr>"

definition pinchState :: state where
  "pinchState =
     initialState\<lparr>interaction := Some Zoom, firstMove := False, fingers := 2,
       hasInteraction := True,
       startTouches := Some [\<lparr>px = 0, py = 0\<rparr>, \<lparr>px = 100, py = 0\<rparr>]\<rparr>"

text \<open>Touch moves with two touches: 5 apart, and 200 apart.\<close>

definition spreadEvent :: touchEvent where
  "spreadEvent = \<lparr>touches = [\<lparr>px = 0, py = 0\<rparr>, \<lparr>px = 3, py = 4\<rparr>]\<rparr>"

definition pinchEvent :: touchEvent where
  "pinchEvent = \<lparr>touches = [\<lparr>px = 0, py = 0\<rparr>, \<lparr>px = 200, py = 0\<rparr>]\<rparr>"



subsection \<open>Event sequences with the default props, from the initial state\<close>

definition fingerA :: point where
  "fingerA = \<lparr>px = 50, py = 50\<rparr>"

definition fingerB :: point where
  "fingerB = \<lparr>px = 150, py = 50\<rparr>"

text \<open>One finger down and a first move: the drag interaction starts.\<close>

definition dragStarted :: "fault + state" where
  "dragStarted =
     andThen (handlerOnTouchStart defaultProps exampleHost 1000 \<lparr>touches = [fingerA]\<rparr>
                initialState) (\<lambda>s1.
       handlerOnTouchMove defaultProps exampleHost 1010 \<lparr>touches = [fingerA]\<rparr> s1)"

text \<open>Then a second finger down and a first move with both: drag gives way to zoom.\<close>

definition dragThenPinch :: "fault + state" where
  "dragThenPinch =
     andThen dragStarted (\<lambda>s2.
     andThen (handlerOnTouchStart defaultProps exampleHost 1020
                \<lparr>touches = [fingerA, fingerB]\<rparr> s2) (\<lambda>s3.
       handlerOnTouchMove defaultProps exampleHost 1030 \<lparr>touches = [fingerA, fingerB]\<rparr> s3))"

text \<open>Then one finger is lifted: zoom gives way to drag.\<close>

definition pinchThenLift :: "fault + state" where
  "pinchThenLift =
     andThen dragThenPinch (\<lambda>s4.
       handlerOnTouchEnd defaultProps exampleHost 1040 \<lparr>touches = [fingerA]\<rparr> s4)"

text \<open>
  Two fingers down, a first move, four moves that shift both fingers by 10 each time with
  their distance unchanged, and both fingers lifted.
\<close>

definition shifted :: "real \<Rightarrow> touchEvent" where
  "shifted d = \<lparr>touches = [\<lparr>px = 50 + d, py = 50\<rparr>, \<lparr>px = 150 + d, py = 50\<rparr>]\<rparr>"


text \<open>
  Two fingers down, a first move, three moves with the fingers where they were, and a move
  with both fingers at one point.
\<close>

definition coincident :: touchEvent where
  "coincident = \<lparr>touches = [\<lparr>px = 100, py = 50\<rparr>, \<lparr>px = 100, py = 50\<rparr>]\<rparr>"

definition pinchCollapse :: "fault + state" where
  "pinchCollapse =
     andThen (handlerOnTouchStart defaultProps fitHost 1000 (shifted 0) initialState) (\<lambda>s1.
     andThen (handlerOnTouchMove defaultProps fitHost 1010 (shifted 0) s1) (\<lambda>s2.
     andThen (handlerOnTouchMove defaultProps fitHost 1020 (shifted 0) s2) (\<lambda>s3.
     andThen (handlerOnTouchMove defaultProps fitHost 1030 (shifted 0) s3) (\<lambda>s4.
     andThen (handlerOnTouchMove defaultProps fitHost 1040 (shifted 0) s4) (\<lambda>s5.
       handlerOnTouchMove defaultProps fitHost 1050 coincident s5)))))"

text \<open>
  Three taps at the same point, the touch starts 100 ms and 290 ms apart. The loop that
  the second tap starts has its final frame 250 ms after that tap, before the third tap;
  the loop that the third tap starts has its final frame 250 ms after the third tap.
\<close>

definition firstTap :: "fault + state" where
  "firstTap = tap defaultProps exampleHost 1000 fingerA initialState"




text \<open>
  A third tap 130 ms after the second instead, while the loop of the second tap is
  pending: a frame of that loop half way, the tap, then a frame callback for each of the
  two loops.
\<close>

definition earlyThirdTap :: "fault + state" where
  "earlyThirdTap =
     andThen firstTap (\<lambda>s1.
     andThen (tapRun defaultProps exampleHost 1100 fingerA [1225] s1)
       (tapRun defaultProps exampleHost 1230 fingerA [1350, 1366]))"

section \<open>Basic facts\<close>

lemma clamp_range: "lo \<le> hi \<Longrightarrow> lo \<le> clamp lo hi v \<and> clamp lo hi v \<le> hi"
  by (simp add: clamp_def)

lemma clamp_fixed: "lo \<le> v \<Longrightarrow> v \<le> hi \<Longrightarrow> clamp lo hi v = v"
  by (simp add: clamp_def)


lemma andThen_Inr [simp]: "andThen (Inr v) f = f v"
  by (simp add: andThen_def)

lemma andThen_Inl [simp]: "andThen (Inl e) f = Inl e"
  by (simp add: andThen_def)

lemma andThen_eq_Inr: "andThen r f = Inr y \<longleftrightarrow> (\<exists>v. r = Inr v \<and> f v = Inr y)"
  by (cases r) simp_all

lemma jsdiv_eq_Inr: "jsdiv a b = Inr q \<longleftrightarrow> (b \<noteq> 0 \<and> q = a / b)"
  by (auto simp: jsdiv_def)

lemma jsdiv_nonzero [simp]: "b \<noteq> 0 \<Longrightarrow> jsdiv a b = Inr (a / b)"
  by (simp add: jsdiv_def)

lemma jsdiv_zero [simp]: "jsdiv a 0 = Inl NonFinite"
  by (simp add: jsdiv_def)

subsection \<open>The zoom factor under the operations\<close>

lemma zoomFactor_emit [simp]: "zoomFactor (emit e s) = zoomFactor s"
  by (simp add: emit_def)

lemma zoomFactor_addOffset [simp]: "zoomFactor (addOffset d s) = zoomFactor s"
  by (simp add: addOffset_def)

lemma zoomFactor_drag [simp]: "zoomFactor (drag p c l s) = zoomFactor s"
  by (simp add: drag_def Let_def split: option.splits)

lemma zoomFactor_update [simp]: "zoomFactor (update b s) = zoomFactor s"
  by (simp add: update_def emit_def)

lemma zoomFactor_stopAnimation [simp]: "zoomFactor (stopAnimation s) = zoomFactor s"
  by (simp add: stopAnimation_def)

lemma zoomFactor_animate [simp]: "zoomFactor (animate p now f cb d s) = zoomFactor s"
  by (simp add: animate_def Let_def)

lemma zoomFactor_scaleZoomFactor:
  "zoomFactor (snd (scaleZoomFactor p k s)) = clamp (minZoom p) (maxZoom p) (zoomFactor s * k)"
  by (simp add: scaleZoomFactor_def Let_def)

lemma zoomFactor_scale:
  "scale p k c s = Inr s' \<Longrightarrow> zoomFactor s' = clamp (minZoom p) (maxZoom p) (zoomFactor s * k)"
  by (auto simp: scale_def scaleZoomFactor_def Let_def andThen_eq_Inr)

lemma zoomFactor_scaleTo':
  "scaleTo' p z c s = Inr s' \<Longrightarrow>
     zoomFactor s \<noteq> 0 \<and> zoomFactor s' = clamp (minZoom p) (maxZoom p) z"
  by (auto simp: scaleTo'_def andThen_eq_Inr jsdiv_eq_Inr dest!: zoomFactor_scale)

lemma handleZoom_range:
  assumes "minZoom p \<le> maxZoom p" "zoomInRange p s" "handleZoom p h ev ns s = Inr s'"
  shows "zoomInRange p s'"
  using assms
  by (auto simp: handleZoom_def Let_def andThen_eq_Inr zoomInRange_def clamp_range
      split: if_splits dest!: zoomFactor_scale)

lemma handlerWheel_range:
  assumes "minZoom p \<le> maxZoom p" "zoomInRange p s" "handlerWheel p h ev s = Inr s'"
  shows "zoomInRange p s'"
  using assms
  by (auto simp: handlerWheel_def Let_def andThen_eq_Inr zoomInRange_def clamp_range
      split: if_splits option.splits dest!: zoomFactor_scaleTo')

lemma scaleTo_range:
  assumes "minZoom p \<le> maxZoom p" "zoomInRange p s" "scaleTo p now opts s = Inr s'"
  shows "zoomInRange p s'"
  using assms
  by (auto simp: scaleTo_def Let_def andThen_eq_Inr zoomInRange_def clamp_range
      split: if_splits option.splits dest!: zoomFactor_scaleTo')

lemma scaleStep_range:
  assumes "minZoom p \<le> maxZoom p" "zoomInRange p s" "scaleStep p h now operation s = Inr s'"
  shows "zoomInRange p s'"
proof (cases operation)
  case (PinchStep ev ns)
  with assms show ?thesis by (auto intro: handleZoom_range)
next
  case (WheelStep ev)
  with assms show ?thesis by (auto intro: handlerWheel_range)
next
  case (DoubleTapStep a b c pr)
  with assms show ?thesis
    by (auto simp: andThen_eq_Inr zoomInRange_def clamp_range split: option.splits
        dest!: zoomFactor_scaleTo')
next
  case (ZoomOutStep a c pr)
  with assms show ?thesis
    by (auto simp: andThen_eq_Inr zoomInRange_def clamp_range Let_def
        dest!: zoomFactor_scaleTo')
next
  case (ScaleToStep opts)
  with assms show ?thesis by (auto intro: scaleTo_range)
qed

section \<open>Drag steps\<close>

text \<open>
  C9. With \<open>lockDragAxis\<close> set, a drag step whose screen delta is \<open>(10, 3)\<close> changes
  only the \<open>x\<close> component of the offset, and one whose delta is \<open>(3, 10)\<close> only the
  \<open>y\<close> component. In general the axis with the smaller absolute delta is left as it
  is, whatever the steps before did; when both are equal the \<open>x\<close> axis is the one left.
\<close>

theorem axis_lock:
  assumes "lockDragAxis p"
  shows "offset (drag p \<lparr>px = px l + 10, py = py l + 3\<rparr> (Some l) s) =
           \<lparr>px = px (offset s) - 10, py = py (offset s)\<rparr> \<and>
         offset (drag p \<lparr>px = px l + 3, py = py l + 10\<rparr> (Some l) s) =
           \<lparr>px = px (offset s), py = py (offset s) - 10\<rparr> \<and>
         (\<bar>px c - px l\<bar> > \<bar>py c - py l\<bar> \<longrightarrow>
            offset (drag p c (Some l) s) =
              \<lparr>px = px (offset s) - (px c - px l), py = py (offset s)\<rparr>) \<and>
         (\<bar>px c - px l\<bar> \<le> \<bar>py c - py l\<bar> \<longrightarrow>
            offset (drag p c (Some l) s) =
              \<lparr>px = px (offset s), py = py (offset s) - (py c - py l)\<rparr>)"
  using assms by (auto simp: drag_def Let_def emit_def addOffset_def)

theorem axis_lock_witness:
  "lockDragAxis lockProps \<and>
   offset (drag lockProps \<lparr>px = 10, py = 3\<rparr> (Some zeroPoint) initialState) =
     \<lparr>px = -10, py = 0\<rparr> \<and>
   offset (drag lockProps \<lparr>px = 3, py = 10\<rparr> (Some zeroPoint) initialState) =
     \<lparr>px = 0, py = -10\<rparr> \<and>
   \<bar>px \<lparr>px = 7, py = -2\<rparr> - px zeroPoint\<bar> > \<bar>py \<lparr>px = 7, py = -2\<rparr> - py zeroPoint\<bar> \<and>
   offset (drag lockProps \<lparr>px = 7, py = -2\<rparr> (Some zeroPoint) initialState) =
     \<lparr>px = -7, py = 0\<rparr> \<and>
   \<bar>px \<lparr>px = 2, py = 2\<rparr> - px zeroPoint\<bar> \<le> \<bar>py \<lparr>px = 2, py = 2\<rparr> - py zeroPoint\<bar> \<and>
   offset (drag lockProps \<lparr>px = 2, py = 2\<rparr> (Some zeroPoint) initialState) =
     \<lparr>px = 0, py = -2\<rparr>"
proof -
  have a: "lockDragAxis lockProps"
    by (simp add: lockProps_def)
  show ?thesis
    using a axis_lock [OF a, of zeroPoint initialState "\<lparr>px = 7, py = -2\<rparr>"]
      axis_lock [OF a, of zeroPoint initialState "\<lparr>px = 2, py = 2\<rparr>"]
    by (simp add: zeroPoint_def initialState_def)
qed

text \<open>
  C10. A drag step whose previous point is \<open>null\<close>, as the first sample after drag start
  is, returns the state as it was: the offset and every other field are unchanged and no
  callback is called. A step with a previous point calls \<open>onDragUpdate\<close> once.
\<close>

theorem drag_first_sample:
  "drag p c None s = s \<and>
   trace (drag p c (Some l) s) = trace s @ [OnDragUpdate]"
  by (simp add: drag_def Let_def emit_def addOffset_def)

section \<open>Offset bounds\<close>

lemma sanitizeOffset_px:
  "px (sanitizeOffset p h s off) =
     clamp (min (elWidth h s - rectWidth h + horizontalPadding p) 0 - horizontalPadding p)
           (max (elWidth h s - rectWidth h + horizontalPadding p) 0) (px off)"
  by (simp add: sanitizeOffset_def Let_def)

lemma sanitizeOffset_py:
  "py (sanitizeOffset p h s off) =
     clamp (min (elHeight h s - rectHeight h + verticalPadding p) 0 - verticalPadding p)
           (max (elHeight h s - rectHeight h + verticalPadding p) 0) (py off)"
  by (simp add: sanitizeOffset_def Let_def)

lemma bounds_ordered: "0 \<le> pad \<Longrightarrow> min a 0 - pad \<le> max a (0::real)"
  by simp

lemma sanitizeOffset_spec_eq:
  "horizontalPadding p = 0 \<Longrightarrow> verticalPadding p = 0 \<Longrightarrow>
     sanitizeOffset p h s off = specSanitizeOffset p h s off"
  by (simp add: sanitizeOffset_def specSanitizeOffset_def Let_def)

text \<open>
  C7, amended. \<open>_sanitizeOffset\<close> clamps each axis of the offset between
  \<open>min(elW - containerWidth + hPadding, 0) - hPadding\<close> and
  \<open>max(elW - containerWidth + hPadding, 0)\<close>, with
  \<open>elW = contentWidth * initialZoomFactor * zoomFactor\<close>, and the same for \<open>y\<close> with the
  heights and the vertical padding. With a padding that is not negative the result lies
  between the two bounds. With both paddings zero this is the clamp of the specification.
\<close>

theorem sanitizeOffset_bounds:
  "sanitizeOffset p h s off =
     \<lparr>px = clamp (min (elWidth h s - rectWidth h + horizontalPadding p) 0 - horizontalPadding p)
                 (max (elWidth h s - rectWidth h + horizontalPadding p) 0) (px off),
      py = clamp (min (elHeight h s - rectHeight h + verticalPadding p) 0 - verticalPadding p)
                 (max (elHeight h s - rectHeight h + verticalPadding p) 0) (py off)\<rparr> \<and>
   (0 \<le> horizontalPadding p \<longrightarrow>
      min (elWidth h s - rectWidth h + horizontalPadding p) 0 - horizontalPadding p
        \<le> px (sanitizeOffset p h s off) \<and>
      px (sanitizeOffset p h s off)
        \<le> max (elWidth h s - rectWidth h + horizontalPadding p) 0) \<and>
   (0 \<le> verticalPadding p \<longrightarrow>
      min (elHeight h s - rectHeight h + verticalPadding p) 0 - verticalPadding p
        \<le> py (sanitizeOffset p h s off) \<and>
      py (sanitizeOffset p h s off)
        \<le> max (elHeight h s - rectHeight h + verticalPadding p) 0) \<and>
   (horizontalPadding p = 0 \<and> verticalPadding p = 0 \<longrightarrow>
      sanitizeOffset p h s off = specSanitizeOffset p h s off)"
proof (intro conjI impI)
  show "sanitizeOffset p h s off =
     \<lparr>px = clamp (min (elWidth h s - rectWidth h + horizontalPadding p) 0 - horizontalPadding p)
                 (max (elWidth h s - rectWidth h + horizontalPadding p) 0) (px off),
      py = clamp (min (elHeight h s - rectHeight h + verticalPadding p) 0 - verticalPadding p)
                 (max (elHeight h s - rectHeight h + verticalPadding p) 0) (py off)\<rparr>"
    by (simp add: sanitizeOffset_def Let_def)
next
  assume "0 \<le> horizontalPadding p"
  from clamp_range [OF bounds_ordered [OF this]]
  show "min (elWidth h s - rectWidth h + horizontalPadding p) 0 - horizontalPadding p
        \<le> px (sanitizeOffset p h s off)"
    and "px (sanitizeOffset p h s off)
        \<le> max (elWidth h s - rectWidth h + horizontalPadding p) 0"
    unfolding sanitizeOffset_px by blast+
next
  assume "0 \<le> verticalPadding p"
  from clamp_range [OF bounds_ordered [OF this]]
  show "min (elHeight h s - rectHeight h + verticalPadding p) 0 - verticalPadding p
        \<le> py (sanitizeOffset p h s off)"
    and "py (sanitizeOffset p h s off)
        \<le> max (elHeight h s - rectHeight h + verticalPadding p) 0"
    unfolding sanitizeOffset_py by blast+
next
  assume "horizontalPadding p = 0 \<and> verticalPadding p = 0"
  then show "sanitizeOffset p h s off = specSanitizeOffset p h s off"
    by (simp add: sanitizeOffset_spec_eq)
qed

text \<open>
  With a horizontal padding of 20, a container 200 wide and content 100 wide, the lower
  bound of the code is \<open>-100\<close> and that of the specification's formula is \<open>-120\<close>: the
  offset \<open>-110\<close> is moved by the code and kept by the formula.
\<close>

theorem sanitizeOffset_counterexample:
  "sanitizeOffset padProps exampleHost initialState \<lparr>px = -110, py = 0\<rparr> = \<lparr>px = -100, py = 0\<rparr> \<and>
   specSanitizeOffset padProps exampleHost initialState \<lparr>px = -110, py = 0\<rparr> = \<lparr>px = -110, py = 0\<rparr>"
  by (simp add: sanitizeOffset_def specSanitizeOffset_def Let_def clamp_def padProps_def
      defaultProps_def exampleHost_def initialState_def)

theorem sanitizeOffset_bounds_witness:
  "0 \<le> horizontalPadding padProps \<and> 0 \<le> verticalPadding padProps \<and>
   sanitizeOffset padProps exampleHost initialState \<lparr>px = -110, py = 30\<rparr> = \<lparr>px = -100, py = 0\<rparr> \<and>
   horizontalPadding defaultProps = 0 \<and> verticalPadding defaultProps = 0 \<and>
   sanitizeOffset defaultProps exampleHost initialState \<lparr>px = -110, py = 30\<rparr>
     = specSanitizeOffset defaultProps exampleHost initialState \<lparr>px = -110, py = 30\<rparr>"
  using sanitizeOffset_bounds [of padProps exampleHost initialState "\<lparr>px = -110, py = 30\<rparr>"]
    sanitizeOffset_bounds [of defaultProps exampleHost initialState "\<lparr>px = -110, py = 30\<rparr>"]
  by (simp add: padProps_def defaultProps_def exampleHost_def initialState_def clamp_def
      sanitizeOffset_def specSanitizeOffset_def Let_def)

section \<open>Scaling around a point\<close>

text \<open>
  C5, amended. From a state with nonzero effective scale, \<open>_scale\<close> returns a state, and
  when the effective scale is nonzero after the call as well, the content point under
  \<open>center\<close> is the same before and after. The effective scale after the call is nonzero
  whenever \<open>0 < minZoom \<le> maxZoom\<close>.
\<close>

theorem scale_fixpoint:
  assumes "initialZoomFactor s * zoomFactor s \<noteq> 0"
  shows "\<exists>s'. scale p k c s = Inr s' \<and>
           (initialZoomFactor s' * zoomFactor s' \<noteq> 0 \<longrightarrow> contentPoint s' c = contentPoint s c) \<and>
           (0 < minZoom p \<and> minZoom p \<le> maxZoom p \<longrightarrow> initialZoomFactor s' * zoomFactor s' \<noteq> 0)"
proof -
  from assms have z: "zoomFactor s \<noteq> 0" and i: "initialZoomFactor s \<noteq> 0" by auto
  let ?z' = "clamp (minZoom p) (maxZoom p) (zoomFactor s * k)"
  let ?k' = "?z' / zoomFactor s"
  let ?s' = "emit OnZoomUpdate
            (addOffset \<lparr>px = (?k' - 1) * (px c + px (offset s)),
                        py = (?k' - 1) * (py c + py (offset s))\<rparr> (s\<lparr>zoomFactor := ?z'\<rparr>))"
  have eq: "scale p k c s = Inr ?s'"
    using z by (simp add: scale_def scaleZoomFactor_def Let_def)
  have pos: "0 < minZoom p \<and> minZoom p \<le> maxZoom p \<longrightarrow> ?z' \<noteq> 0"
    using clamp_range [of "minZoom p" "maxZoom p" "zoomFactor s * k"] by auto
  have keep: "contentPoint ?s' c = contentPoint s c" if nz: "initialZoomFactor ?s' * zoomFactor ?s' \<noteq> 0"
  proof -
    from nz have z': "?z' \<noteq> 0" by (simp add: emit_def addOffset_def)
    have "(px c + (px (offset s) + (?k' - 1) * (px c + px (offset s)))) / (initialZoomFactor s * ?z')
          = (px c + px (offset s)) / (initialZoomFactor s * zoomFactor s)"
      using z z' i by (simp add: field_simps)
    moreover have "(py c + (py (offset s) + (?k' - 1) * (py c + py (offset s)))) / (initialZoomFactor s * ?z')
          = (py c + py (offset s)) / (initialZoomFactor s * zoomFactor s)"
      using z z' i by (simp add: field_simps)
    ultimately show ?thesis
      using z z' i by (simp add: contentPoint_def emit_def addOffset_def)
  qed
  show ?thesis
    using eq pos keep i by (intro exI [of _ ?s']) (simp add: emit_def addOffset_def)
qed

text \<open>
  With \<open>minZoom = 0\<close> the multiplier 0 takes the zoom factor from 1 to 0: the content
  point under \<open>(10, 10)\<close> was \<open>(10, 10)\<close> and is the quotient \<open>0 / 0\<close> afterwards.
\<close>

theorem scale_fixpoint_counterexample:
  "initialZoomFactor initialState * zoomFactor initialState \<noteq> 0 \<and>
   \<not> isl (scale zeroMinProps 0 \<lparr>px = 10, py = 10\<rparr> initialState) \<and>
   zoomFactor (projr (scale zeroMinProps 0 \<lparr>px = 10, py = 10\<rparr> initialState)) = 0 \<and>
   offset (projr (scale zeroMinProps 0 \<lparr>px = 10, py = 10\<rparr> initialState)) = \<lparr>px = -10, py = -10\<rparr> \<and>
   contentPoint (projr (scale zeroMinProps 0 \<lparr>px = 10, py = 10\<rparr> initialState)) \<lparr>px = 10, py = 10\<rparr>
     = Inl NonFinite \<and>
   contentPoint initialState \<lparr>px = 10, py = 10\<rparr> = Inr \<lparr>px = 10, py = 10\<rparr>"
  by (simp add: scale_def scaleZoomFactor_def Let_def zeroMinProps_def defaultProps_def
      initialState_def clamp_def emit_def addOffset_def contentPoint_def zeroPoint_def)

theorem scale_fixpoint_witness:
  "initialZoomFactor initialState * zoomFactor initialState \<noteq> 0 \<and>
   scale defaultProps 3 \<lparr>px = 10, py = 20\<rparr> initialState
     = Inr (projr (scale defaultProps 3 \<lparr>px = 10, py = 20\<rparr> initialState)) \<and>
   zoomFactor (projr (scale defaultProps 3 \<lparr>px = 10, py = 20\<rparr> initialState)) = 3 \<and>
   offset (projr (scale defaultProps 3 \<lparr>px = 10, py = 20\<rparr> initialState)) = \<lparr>px = 20, py = 40\<rparr> \<and>
   contentPoint (projr (scale defaultProps 3 \<lparr>px = 10, py = 20\<rparr> initialState)) \<lparr>px = 10, py = 20\<rparr>
     = contentPoint initialState \<lparr>px = 10, py = 20\<rparr>"
proof -
  have a: "initialZoomFactor initialState * zoomFactor initialState \<noteq> 0"
    by (simp add: initialState_def)
  have e: "scale defaultProps 3 \<lparr>px = 10, py = 20\<rparr> initialState
     = Inr (projr (scale defaultProps 3 \<lparr>px = 10, py = 20\<rparr> initialState))"
    by (simp add: scale_def scaleZoomFactor_def Let_def defaultProps_def initialState_def clamp_def)
  have z: "zoomFactor (projr (scale defaultProps 3 \<lparr>px = 10, py = 20\<rparr> initialState)) = 3 \<and>
   offset (projr (scale defaultProps 3 \<lparr>px = 10, py = 20\<rparr> initialState)) = \<lparr>px = 20, py = 40\<rparr>"
    by (simp add: scale_def scaleZoomFactor_def Let_def defaultProps_def initialState_def clamp_def
        emit_def addOffset_def zeroPoint_def)
  obtain s' where s': "scale defaultProps 3 \<lparr>px = 10, py = 20\<rparr> initialState = Inr s'"
     "initialZoomFactor s' * zoomFactor s' \<noteq> 0 \<longrightarrow> contentPoint s' \<lparr>px = 10, py = 20\<rparr> = contentPoint initialState \<lparr>px = 10, py = 20\<rparr>"
     "0 < minZoom defaultProps \<and> minZoom defaultProps \<le> maxZoom defaultProps \<longrightarrow> initialZoomFactor s' * zoomFactor s' \<noteq> 0"
    using scale_fixpoint [OF a, of defaultProps 3 "\<lparr>px = 10, py = 20\<rparr>"] by blast
  have "0 < minZoom defaultProps \<and> minZoom defaultProps \<le> maxZoom defaultProps"
    by (simp add: defaultProps_def)
  with s' have "contentPoint s' \<lparr>px = 10, py = 20\<rparr> = contentPoint initialState \<lparr>px = 10, py = 20\<rparr>"
    by blast
  with s'(1) a e z show ?thesis by simp
qed


section \<open>Wheel input\<close>

lemma trace_scaleTo':
  "scaleTo' p z c s = Inr s' \<Longrightarrow> trace s' = trace s @ [OnZoomUpdate]"
  by (auto simp: scaleTo'_def scale_def scaleZoomFactor_def Let_def andThen_eq_Inr emit_def addOffset_def)

lemma scaleTo'_total:
  "zoomFactor s \<noteq> 0 \<Longrightarrow> \<exists>s'. scaleTo' p z c s = Inr s'"
  by (simp add: scaleTo'_def scale_def scaleZoomFactor_def Let_def)

lemma handlerWheel_skip: "shouldInterceptWheel p ev \<Longrightarrow> handlerWheel p h ev s = Inr s"
  by (simp add: handlerWheel_def)

lemma getOffsetByFirstTouch_single:
  "getOffsetByFirstTouch h \<lparr>touches = [t]\<rparr> = Some (hd (getOffsetTouches h \<lparr>touches = [t]\<rparr>))"
  by (simp add: getOffsetByFirstTouch_def getOffsetTouches_def Let_def)

lemma handlerWheel_process:
  "\<not> shouldInterceptWheel p ev \<Longrightarrow>
   handlerWheel p h ev s =
     andThen (jsdiv (deltaY ev * (if isZoomGesture h ev \<or> deltaMode ev = 1 then 15 else 1))
                (wheelScaleFactor p)) (\<lambda>q.
     andThen (scaleTo' p (zoomFactor s - q)
                (hd (getOffsetTouches h \<lparr>touches = [\<lparr>px = pageX ev, py = pageY ev\<rparr>]\<rparr>))
                (stopAnimation (emit CancelEvent s))) (\<lambda>s2.
       Inr ((update False s2)\<lparr>wheelTimeOut := True\<rparr>)))"
  by (simp add: handlerWheel_def Let_def getOffsetByFirstTouch_single)

lemma trace_update [simp]: "trace (update False s) = trace s"
  by (simp add: update_def)

lemma handlerWheel_trace:
  assumes "\<not> shouldInterceptWheel p ev" "handlerWheel p h ev s = Inr s'"
  shows "trace s' = trace s @ [CancelEvent, OnZoomUpdate] \<and> wheelTimeOut s' \<and>
     zoomFactor s' = clamp (minZoom p) (maxZoom p)
        (zoomFactor s - deltaY ev * (if isZoomGesture h ev \<or> deltaMode ev = 1 then 15 else 1) / wheelScaleFactor p)"
proof -
  from assms obtain q s2 where
    q: "jsdiv (deltaY ev * (if isZoomGesture h ev \<or> deltaMode ev = 1 then 15 else 1)) (wheelScaleFactor p) = Inr q"
    and s2: "scaleTo' p (zoomFactor s - q)
                (hd (getOffsetTouches h \<lparr>touches = [\<lparr>px = pageX ev, py = pageY ev\<rparr>]\<rparr>))
                (stopAnimation (emit CancelEvent s)) = Inr s2"
    and s': "s' = (update False s2)\<lparr>wheelTimeOut := True\<rparr>"
    unfolding handlerWheel_process [OF assms(1)] andThen_eq_Inr by auto
  from trace_scaleTo' [OF s2] have t: "trace s2 = trace s @ [CancelEvent, OnZoomUpdate]"
    by (simp add: stopAnimation_def emit_def)
  from zoomFactor_scaleTo' [OF s2] have z: "zoomFactor s2 = clamp (minZoom p) (maxZoom p) (zoomFactor s - q)"
    by simp
  from q have "q = deltaY ev * (if isZoomGesture h ev \<or> deltaMode ev = 1 then 15 else 1) / wheelScaleFactor p"
    by (simp add: jsdiv_eq_Inr)
  with t z s' show ?thesis by simp
qed

lemma handlerWheel_total:
  assumes "\<not> shouldInterceptWheel p ev" "wheelScaleFactor p \<noteq> 0" "zoomFactor s \<noteq> 0"
  shows "\<exists>s'. handlerWheel p h ev s = Inr s'"
proof -
  have "zoomFactor (stopAnimation (emit CancelEvent s)) \<noteq> 0" using assms(3) by simp
  from scaleTo'_total [OF this] obtain s2 where
    "scaleTo' p (zoomFactor s - deltaY ev * (if isZoomGesture h ev \<or> deltaMode ev = 1 then 15 else 1) / wheelScaleFactor p)
                (hd (getOffsetTouches h \<lparr>touches = [\<lparr>px = pageX ev, py = pageY ev\<rparr>]\<rparr>))
                (stopAnimation (emit CancelEvent s)) = Inr s2" by blast
  then show ?thesis
    unfolding handlerWheel_process [OF assms(1)] using assms(2) by simp
qed

text \<open>
  C2, amended. The wheel handler leaves the event and the state alone exactly when the
  prop \<open>shouldInterceptWheel\<close> yields true for the event. When it yields false, and the
  wheel scale factor and the zoom factor are nonzero, the handler cancels the event,
  applies the scale step and leaves the settle timer pending. The default predicate
  yields true unless ctrl or meta is held, so by default a wheel event is processed only
  with ctrl or meta held and is left to the page otherwise.
\<close>

theorem wheel_intercept:
  "(handlerWheel p h ev s = Inr s \<longleftrightarrow> shouldInterceptWheel p ev) \<and>
   (\<not> shouldInterceptWheel p ev \<and> wheelScaleFactor p \<noteq> 0 \<and> zoomFactor s \<noteq> 0 \<longrightarrow>
      (\<exists>s'. handlerWheel p h ev s = Inr s' \<and>
            trace s' = trace s @ [CancelEvent, OnZoomUpdate] \<and> wheelTimeOut s' \<and>
            zoomFactor s' = clamp (minZoom p) (maxZoom p)
              (zoomFactor s - deltaY ev * (if isZoomGesture h ev \<or> deltaMode ev = 1 then 15 else 1)
                 / wheelScaleFactor p))) \<and>
   (shouldInterceptWheel defaultProps ev \<longleftrightarrow> \<not> (ctrlKey ev \<or> metaKey ev))"
proof (intro conjI impI)
  show "handlerWheel p h ev s = Inr s \<longleftrightarrow> shouldInterceptWheel p ev"
  proof
    assume r: "handlerWheel p h ev s = Inr s"
    show "shouldInterceptWheel p ev"
    proof (rule ccontr)
      assume "\<not> shouldInterceptWheel p ev"
      from handlerWheel_trace [OF this r] show False by simp
    qed
  next
    assume "shouldInterceptWheel p ev"
    then show "handlerWheel p h ev s = Inr s" by (rule handlerWheel_skip)
  qed
next
  assume a: "\<not> shouldInterceptWheel p ev \<and> wheelScaleFactor p \<noteq> 0 \<and> zoomFactor s \<noteq> 0"
  then obtain s' where s': "handlerWheel p h ev s = Inr s'"
    using handlerWheel_total by blast
  with a handlerWheel_trace [of p ev h s s'] show "\<exists>s'. handlerWheel p h ev s = Inr s' \<and>
            trace s' = trace s @ [CancelEvent, OnZoomUpdate] \<and> wheelTimeOut s' \<and>
            zoomFactor s' = clamp (minZoom p) (maxZoom p)
              (zoomFactor s - deltaY ev * (if isZoomGesture h ev \<or> deltaMode ev = 1 then 15 else 1)
                 / wheelScaleFactor p)"
    by blast
next
  show "shouldInterceptWheel defaultProps ev \<longleftrightarrow> \<not> (ctrlKey ev \<or> metaKey ev)"
    by (simp add: defaultProps_def defaultShouldInterceptWheel_def)
qed

lemma ctrlWheel_run:
  "handlerWheel defaultProps exampleHost ctrlWheel initialState =
     Inr (initialState\<lparr>zoomFactor := 11 / 10, offset := \<lparr>px = 1, py = 1\<rparr>,
            trace := [CancelEvent, OnZoomUpdate], updatePlaned := True, wheelTimeOut := True\<rparr>)"
  by (simp add: handlerWheel_def defaultProps_def exampleHost_def ctrlWheel_def
      initialState_def defaultShouldInterceptWheel_def isZoomGesture_def
      getOffsetByFirstTouch_def getOffsetTouches_def scaleTo'_def scale_def
      scaleZoomFactor_def clamp_def emit_def addOffset_def stopAnimation_def update_def
      Let_def zeroPoint_def)

text \<open>
  With the default props a wheel event without ctrl and meta, for which the predicate
  says to intercept, is left alone, and one with ctrl held, for which it says not to
  intercept, is cancelled and zooms from 1 to 1.1.
\<close>

theorem wheel_intercept_counterexample:
  "\<not> (ctrlKey plainWheel \<or> metaKey plainWheel) \<and>
   shouldInterceptWheel defaultProps plainWheel \<and>
   handlerWheel defaultProps exampleHost plainWheel initialState = Inr initialState \<and>
   ctrlKey ctrlWheel \<and>
   \<not> shouldInterceptWheel defaultProps ctrlWheel \<and>
   handlerWheel defaultProps exampleHost ctrlWheel initialState =
     Inr (initialState\<lparr>zoomFactor := 11 / 10, offset := \<lparr>px = 1, py = 1\<rparr>,
            trace := [CancelEvent, OnZoomUpdate], updatePlaned := True, wheelTimeOut := True\<rparr>)"
  using ctrlWheel_run
  by (simp add: handlerWheel_def defaultProps_def plainWheel_def ctrlWheel_def
      defaultShouldInterceptWheel_def)

theorem wheel_intercept_witness:
  "\<not> shouldInterceptWheel defaultProps ctrlWheel \<and> wheelScaleFactor defaultProps \<noteq> 0 \<and>
   zoomFactor initialState \<noteq> 0 \<and>
   handlerWheel defaultProps exampleHost ctrlWheel initialState \<noteq> Inr initialState \<and>
   zoomFactor (projr (handlerWheel defaultProps exampleHost ctrlWheel initialState)) = 11 / 10 \<and>
   shouldInterceptWheel defaultProps plainWheel \<and>
   handlerWheel defaultProps exampleHost plainWheel initialState = Inr initialState"
proof -
  have a: "\<not> shouldInterceptWheel defaultProps ctrlWheel"
    by (simp add: defaultProps_def defaultShouldInterceptWheel_def ctrlWheel_def)
  have b: "wheelScaleFactor defaultProps \<noteq> 0" by (simp add: defaultProps_def)
  have c: "zoomFactor initialState \<noteq> 0" by (simp add: initialState_def)
  have d: "shouldInterceptWheel defaultProps plainWheel"
    by (simp add: defaultProps_def defaultShouldInterceptWheel_def plainWheel_def)
  have e: "zoomFactor (projr (handlerWheel defaultProps exampleHost ctrlWheel initialState)) = 11 / 10"
    by (simp add: ctrlWheel_run)
  show ?thesis
    using a b c d e
      wheel_intercept [of defaultProps exampleHost ctrlWheel initialState]
      wheel_intercept [of defaultProps exampleHost plainWheel initialState]
    by blast
qed


section \<open>Pinch steps\<close>

lemma calculateScale_two:
  "calculateScale [s0, s1] [e0, e1] = jsdiv (getDistance e0 e1) (getDistance s0 s1)"
  by (simp add: Let_def)

lemma length_two: "length xs = 2 \<longleftrightarrow> (\<exists>a b. xs = [a, b])"
  by (cases xs; simp; cases "tl xs"; auto)

text \<open>
  C8, amended. In the zoom interaction the zoom branch of a touch move applies the pinch
  step only when two start touches are stored and the event has two touches; otherwise
  the branch returns the state as it was. When the two start touches are at different points the scale handed to the
  pinch step is the distance of the event's touches divided by that of the start touches.
  The quotient has no guard for a start distance of zero.
\<close>

theorem zoom_move_guard:
  "(startTouches s = None \<longrightarrow> zoomMove p h ev s = Inr s) \<and>
   (startTouches s = Some st \<and> (length st \<noteq> 2 \<or> length (touches ev) \<noteq> 2) \<longrightarrow>
      zoomMove p h ev s = Inr s) \<and>
   (startTouches s = Some [s0, s1] \<and> touches ev = [e0, e1] \<and> getDistance s0 s1 \<noteq> 0 \<longrightarrow>
      calculateScale [s0, s1] [e0, e1] = Inr (getDistance e0 e1 / getDistance s0 s1) \<and>
      zoomMove p h ev s = handleZoom p h ev (getDistance e0 e1 / getDistance s0 s1) s)"
  by (auto simp: zoomMove_def Let_def)

lemma getDistance_same [simp]: "getDistance a a = 0"
  by (simp add: getDistance_def)

lemma getDistance_horizontal: "py a = py b \<Longrightarrow> getDistance a b = \<bar>px a - px b\<bar>"
  by (simp add: getDistance_def)

text \<open>
  With both start touches at \<open>(5, 5)\<close> the start distance is zero: the scale is the
  quotient of 5 by 0, not 1, and the frame is not skipped, as the handler hands the
  quotient to the pinch step.
\<close>

theorem zoom_move_guard_counterexample:
  "getDistance \<lparr>px = 5, py = 5\<rparr> \<lparr>px = 5, py = 5\<rparr> = 0 \<and>
   calculateScale [\<lparr>px = 5, py = 5\<rparr>, \<lparr>px = 5, py = 5\<rparr>] (touches spreadEvent) = Inl NonFinite \<and>
   zoomMove defaultProps exampleHost spreadEvent coincidentState = Inl NonFinite \<and>
   handlerOnTouchMove defaultProps exampleHost 0 spreadEvent coincidentState = Inl NonFinite \<and>
   zoomMove defaultProps exampleHost spreadEvent coincidentState \<noteq> Inr coincidentState \<and>
   zoomMove defaultProps exampleHost spreadEvent coincidentState
     \<noteq> handleZoom defaultProps exampleHost spreadEvent 1 coincidentState"
  by (simp add: zoomMove_def coincidentState_def spreadEvent_def initialState_def
      handlerOnTouchMove_def defaultProps_def collectInertia_def isZoomInteraction_def
      handleZoom_def getVectorAvg_def getOffsetTouches_def exampleHost_def Let_def)

theorem zoom_move_guard_witness:
  "startTouches initialState = None \<and>
   zoomMove defaultProps exampleHost pinchEvent initialState = Inr initialState \<and>
   startTouches pinchState = Some [\<lparr>px = 0, py = 0\<rparr>, \<lparr>px = 100, py = 0\<rparr>] \<and>
   length (touches \<lparr>touches = [\<lparr>px = 7, py = 7\<rparr>]\<rparr>) \<noteq> 2 \<and>
   zoomMove defaultProps exampleHost \<lparr>touches = [\<lparr>px = 7, py = 7\<rparr>]\<rparr> pinchState = Inr pinchState \<and>
   touches pinchEvent = [\<lparr>px = 0, py = 0\<rparr>, \<lparr>px = 200, py = 0\<rparr>] \<and>
   getDistance \<lparr>px = 0, py = 0\<rparr> \<lparr>px = 100, py = 0\<rparr> \<noteq> 0 \<and>
   calculateScale [\<lparr>px = 0, py = 0\<rparr>, \<lparr>px = 100, py = 0\<rparr>] [\<lparr>px = 0, py = 0\<rparr>, \<lparr>px = 200, py = 0\<rparr>] = Inr 2 \<and>
   zoomMove defaultProps exampleHost pinchEvent pinchState
     = handleZoom defaultProps exampleHost pinchEvent 2 pinchState"
proof -
  have a: "startTouches initialState = None" by (simp add: initialState_def)
  have b: "startTouches pinchState = Some [\<lparr>px = 0, py = 0\<rparr>, \<lparr>px = 100, py = 0\<rparr>]"
    by (simp add: pinchState_def)
  have c: "length (touches \<lparr>touches = [\<lparr>px = 7, py = 7\<rparr>]\<rparr>) \<noteq> 2" by simp
  have d: "touches pinchEvent = [\<lparr>px = 0, py = 0\<rparr>, \<lparr>px = 200, py = 0\<rparr>]"
    by (simp add: pinchEvent_def)
  have e: "getDistance \<lparr>px = 0, py = 0\<rparr> \<lparr>px = 100, py = 0\<rparr> = 100"
    by (simp add: getDistance_horizontal)
  have f: "getDistance \<lparr>px = 0, py = 0\<rparr> \<lparr>px = 200, py = 0\<rparr> = 200"
    by (simp add: getDistance_horizontal)
  show ?thesis
    using a b c d e f
      zoom_move_guard [of initialState defaultProps exampleHost pinchEvent
         "[\<lparr>px = 0, py = 0\<rparr>, \<lparr>px = 100, py = 0\<rparr>]"
         "\<lparr>px = 0, py = 0\<rparr>" "\<lparr>px = 100, py = 0\<rparr>" "\<lparr>px = 0, py = 0\<rparr>" "\<lparr>px = 200, py = 0\<rparr>"]
      zoom_move_guard [of pinchState defaultProps exampleHost "\<lparr>touches = [\<lparr>px = 7, py = 7\<rparr>]\<rparr>"
         "[\<lparr>px = 0, py = 0\<rparr>, \<lparr>px = 100, py = 0\<rparr>]"
         "\<lparr>px = 0, py = 0\<rparr>" "\<lparr>px = 100, py = 0\<rparr>" "\<lparr>px = 0, py = 0\<rparr>" "\<lparr>px = 200, py = 0\<rparr>"]
      zoom_move_guard [of pinchState defaultProps exampleHost pinchEvent
         "[\<lparr>px = 0, py = 0\<rparr>, \<lparr>px = 100, py = 0\<rparr>]"
         "\<lparr>px = 0, py = 0\<rparr>" "\<lparr>px = 100, py = 0\<rparr>" "\<lparr>px = 0, py = 0\<rparr>" "\<lparr>px = 200, py = 0\<rparr>"]
    by simp
qed


section \<open>Interaction changes\<close>

text \<open>The definitions that the evaluation of an event sequence unfolds.\<close>

lemmas eval_defs = handlerOnTouchStart_def handlerOnTouchMove_def handlerOnTouchEnd_def
  detectDoubleTap_def handleDoubleTap_def updateInteraction_def setInteraction_def
  handleZoomStart_def handleDragStart_def handleDrag_def handleDragEnd_def handleZoomEnd_def
  collectInertia_def realizeInertia_def resetInertia_def stopAnimation_def pz_end_def
  sanitize_def zoomOutAnimation_def sanitizeOffsetAnimation_def isInsaneOffset_def
  sanitizeOffset_def getCurrentZoomCenter_def animate_def update_def emit_def drag_def
  addOffset_def canDrag_def isCloseTo_def isZoomInteraction_def isDragInteraction_def
  getOffsetByFirstTouch_def getOffsetTouches_def clamp_def calculateVelocity_def
  defaultProps_def initialState_def exampleHost_def zeroPoint_def Let_def
  defaultShouldInterceptWheel_def

lemma getCurrentZoomCenter_total:
  "zoomFactor s \<noteq> 1 \<Longrightarrow> \<exists>c. getCurrentZoomCenter s = Inr c"
  by (simp add: getCurrentZoomCenter_def Let_def)

lemma trace_animate [simp]: "trace (animate p now f cb d s) = trace s"
  by (simp add: animate_def Let_def)

lemma sanitize_total: "\<exists>s'. sanitize p h now s = Inr s' \<and> trace s' = trace s"
proof (cases "zoomFactor s = 1")
  case True
  then show ?thesis
    by (simp add: sanitize_def zoomOutAnimation_def sanitizeOffsetAnimation_def Let_def)
next
  case False
  from getCurrentZoomCenter_total [OF this] obtain c where "getCurrentZoomCenter s = Inr c" ..
  with False show ?thesis
    by (simp add: sanitize_def zoomOutAnimation_def sanitizeOffsetAnimation_def Let_def)
qed

lemma pz_end_total: "\<exists>s'. pz_end p h now s = Inr s' \<and> trace s' = trace s"
proof -
  from sanitize_total [of p h now "s\<lparr>hasInteraction := False\<rparr>"]
  obtain s1 where "sanitize p h now (s\<lparr>hasInteraction := False\<rparr>) = Inr s1" "trace s1 = trace s"
    by auto
  then show ?thesis by (simp add: pz_end_def)
qed

lemma trace_realizeInertia [simp]: "trace (realizeInertia p now s) = trace s"
  by (simp add: realizeInertia_def Let_def resetInertia_def stopAnimation_def split: option.splits)

lemma handleDragEnd_total:
  "\<exists>s'. handleDragEnd p h now s = Inr s' \<and> trace s' = trace s @ [OnDragEnd]"
proof -
  from pz_end_total [of p h now "emit OnDragEnd s"]
  obtain s1 where "pz_end p h now (emit OnDragEnd s) = Inr s1" "trace s1 = trace (emit OnDragEnd s)"
    by auto
  then show ?thesis by (simp add: handleDragEnd_def emit_def)
qed

lemma handleZoomEnd_total:
  "\<exists>s'. handleZoomEnd p h now s = Inr s' \<and> trace s' = trace s @ [OnZoomEnd]"
proof -
  from pz_end_total [of p h now "emit OnZoomEnd s"]
  obtain s1 where "pz_end p h now (emit OnZoomEnd s) = Inr s1" "trace s1 = trace (emit OnZoomEnd s)"
    by auto
  then show ?thesis by (simp add: handleZoomEnd_def emit_def)
qed

lemma trace_handleZoomStart: "trace (handleZoomStart s) = trace s @ [OnZoomStart]"
  by (simp add: handleZoomStart_def Let_def stopAnimation_def emit_def)

lemma handleDragStart_total:
  "\<exists>s'. handleDragStart p h ev s = Inr s' \<and> trace s' = trace s @ [OnDragStart]"
  by (simp add: handleDragStart_def handleDrag_def Let_def drag_def emit_def resetInertia_def
      stopAnimation_def split: option.splits)

text \<open>
  C3, amended. The end handler of the drag state (with its inertia release) and that of
  the zoom state run when the interaction changes from that state to none. On a change
  from drag to zoom only the zoom start handler runs, and on a change from zoom to drag
  only the drag start handler: the end handler of the state that is left does not run.
\<close>

theorem end_handlers:
  "(interaction s = Some Drag \<longrightarrow>
      (\<exists>s1. handleDragEnd p h now s = Inr s1 \<and> trace s1 = trace s @ [OnDragEnd] \<and>
            setInteraction p h now None ev s = Inr (s1\<lparr>interaction := None\<rparr>))) \<and>
   (interaction s = Some Zoom \<longrightarrow>
      (\<exists>s1. handleZoomEnd p h now s = Inr s1 \<and> trace s1 = trace s @ [OnZoomEnd] \<and>
            setInteraction p h now None ev s = Inr (s1\<lparr>interaction := None\<rparr>))) \<and>
   (interaction s = Some Drag \<longrightarrow>
      setInteraction p h now (Some Zoom) ev s = Inr ((handleZoomStart s)\<lparr>interaction := Some Zoom\<rparr>) \<and>
      trace (handleZoomStart s) = trace s @ [OnZoomStart]) \<and>
   (interaction s = Some Zoom \<longrightarrow>
      (\<exists>s1. handleDragStart p h ev s = Inr s1 \<and> trace s1 = trace s @ [OnDragStart] \<and>
            setInteraction p h now (Some Drag) ev s = Inr (s1\<lparr>interaction := Some Drag\<rparr>)))"
proof (intro conjI impI)
  assume d: "interaction s = Some Drag"
  from handleDragEnd_total [of p h now s] obtain s1 where
    s1: "handleDragEnd p h now s = Inr s1" "trace s1 = trace s @ [OnDragEnd]" by auto
  then show "\<exists>s1. handleDragEnd p h now s = Inr s1 \<and> trace s1 = trace s @ [OnDragEnd] \<and>
            setInteraction p h now None ev s = Inr (s1\<lparr>interaction := None\<rparr>)"
    using d by (simp add: setInteraction_def Let_def isZoomInteraction_def isDragInteraction_def)
  show "setInteraction p h now (Some Zoom) ev s = Inr ((handleZoomStart s)\<lparr>interaction := Some Zoom\<rparr>)"
    using d by (simp add: setInteraction_def Let_def isZoomInteraction_def isDragInteraction_def)
  show "trace (handleZoomStart s) = trace s @ [OnZoomStart]"
    by (rule trace_handleZoomStart)
next
  assume z: "interaction s = Some Zoom"
  from handleZoomEnd_total [of p h now s] obtain s1 where
    s1: "handleZoomEnd p h now s = Inr s1" "trace s1 = trace s @ [OnZoomEnd]" by auto
  then show "\<exists>s1. handleZoomEnd p h now s = Inr s1 \<and> trace s1 = trace s @ [OnZoomEnd] \<and>
            setInteraction p h now None ev s = Inr (s1\<lparr>interaction := None\<rparr>)"
    using z by (simp add: setInteraction_def Let_def isZoomInteraction_def isDragInteraction_def)
  from handleDragStart_total [of p h ev s] obtain s2 where
    s2: "handleDragStart p h ev s = Inr s2" "trace s2 = trace s @ [OnDragStart]" by auto
  then show "\<exists>s1. handleDragStart p h ev s = Inr s1 \<and> trace s1 = trace s @ [OnDragStart] \<and>
            setInteraction p h now (Some Drag) ev s = Inr (s1\<lparr>interaction := Some Drag\<rparr>)"
    using z by (simp add: setInteraction_def Let_def isZoomInteraction_def isDragInteraction_def)
qed

lemma dragStarted_eval:
  "interaction (projr dragStarted) = Some Drag \<and> trace (projr dragStarted) = [OnDragStart, CancelEvent]"
  by (simp add: dragStarted_def eval_defs fingerA_def)

lemma dragThenPinch_eval:
  "\<not> isl dragThenPinch \<and> interaction (projr dragThenPinch) = Some Zoom \<and>
   trace (projr dragThenPinch) = [OnDragStart, CancelEvent, OnZoomStart, CancelEvent]"
  by (simp add: dragThenPinch_def dragStarted_def eval_defs fingerA_def fingerB_def)

lemma pinchThenLift_eval:
  "\<not> isl pinchThenLift \<and> interaction (projr pinchThenLift) = Some Drag \<and>
   trace (projr pinchThenLift) = [OnDragStart, CancelEvent, OnZoomStart, CancelEvent, OnDragStart]"
  by (simp add: pinchThenLift_def dragThenPinch_def dragStarted_def eval_defs fingerA_def fingerB_def)

text \<open>
  A second finger during a drag takes the interaction from drag to zoom without
  \<open>onDragEnd\<close>; lifting one of two fingers takes it from zoom to drag without
  \<open>onZoomEnd\<close>.
\<close>

theorem end_handlers_counterexample:
  "interaction (projr dragStarted) = Some Drag \<and>
   \<not> isl dragThenPinch \<and> interaction (projr dragThenPinch) = Some Zoom \<and>
   trace (projr dragThenPinch) = [OnDragStart, CancelEvent, OnZoomStart, CancelEvent] \<and>
   OnDragEnd \<notin> set (trace (projr dragThenPinch)) \<and>
   \<not> isl pinchThenLift \<and> interaction (projr pinchThenLift) = Some Drag \<and>
   trace (projr pinchThenLift) = [OnDragStart, CancelEvent, OnZoomStart, CancelEvent, OnDragStart] \<and>
   OnZoomEnd \<notin> set (trace (projr pinchThenLift))"
  using dragStarted_eval dragThenPinch_eval pinchThenLift_eval by simp

theorem end_handlers_witness:
  "interaction (projr dragStarted) = Some Drag \<and>
   trace (projr (setInteraction defaultProps exampleHost 1040 None \<lparr>touches = []\<rparr>
                  (projr dragStarted)))
     = [OnDragStart, CancelEvent, OnDragEnd] \<and>
   trace (projr (setInteraction defaultProps exampleHost 1040 (Some Zoom)
                  \<lparr>touches = [fingerA, fingerB]\<rparr> (projr dragStarted)))
     = [OnDragStart, CancelEvent, OnZoomStart] \<and>
   interaction (projr dragThenPinch) = Some Zoom \<and>
   trace (projr (setInteraction defaultProps exampleHost 1040 None \<lparr>touches = []\<rparr>
                  (projr dragThenPinch)))
     = [OnDragStart, CancelEvent, OnZoomStart, CancelEvent, OnZoomEnd] \<and>
   trace (projr (setInteraction defaultProps exampleHost 1040 (Some Drag)
                  \<lparr>touches = [fingerA]\<rparr> (projr dragThenPinch)))
     = [OnDragStart, CancelEvent, OnZoomStart, CancelEvent, OnDragStart]"
proof -
  have a: "interaction (projr dragStarted) = Some Drag" using dragStarted_eval by simp
  have b: "interaction (projr dragThenPinch) = Some Zoom" using dragThenPinch_eval by simp
  note d = end_handlers [of "projr dragStarted" defaultProps exampleHost 1040 "\<lparr>touches = []\<rparr>"]
  note d' = end_handlers [of "projr dragStarted" defaultProps exampleHost 1040
      "\<lparr>touches = [fingerA, fingerB]\<rparr>"]
  note z = end_handlers [of "projr dragThenPinch" defaultProps exampleHost 1040 "\<lparr>touches = []\<rparr>"]
  note z' = end_handlers [of "projr dragThenPinch" defaultProps exampleHost 1040
      "\<lparr>touches = [fingerA]\<rparr>"]
  from a d obtain s1 where "trace s1 = trace (projr dragStarted) @ [OnDragEnd]"
    "setInteraction defaultProps exampleHost 1040 None \<lparr>touches = []\<rparr> (projr dragStarted)
       = Inr (s1\<lparr>interaction := None\<rparr>)"
    by blast
  then have c1: "trace (projr (setInteraction defaultProps exampleHost 1040 None \<lparr>touches = []\<rparr>
                  (projr dragStarted)))
     = [OnDragStart, CancelEvent, OnDragEnd]"
    using dragStarted_eval by simp
  from a d' have "setInteraction defaultProps exampleHost 1040 (Some Zoom)
        \<lparr>touches = [fingerA, fingerB]\<rparr> (projr dragStarted)
       = Inr ((handleZoomStart (projr dragStarted))\<lparr>interaction := Some Zoom\<rparr>)"
    "trace (handleZoomStart (projr dragStarted)) = trace (projr dragStarted) @ [OnZoomStart]"
    by blast+
  then have c2: "trace (projr (setInteraction defaultProps exampleHost 1040 (Some Zoom)
                  \<lparr>touches = [fingerA, fingerB]\<rparr> (projr dragStarted)))
     = [OnDragStart, CancelEvent, OnZoomStart]"
    using dragStarted_eval by simp
  from b z obtain s2 where "trace s2 = trace (projr dragThenPinch) @ [OnZoomEnd]"
    "setInteraction defaultProps exampleHost 1040 None \<lparr>touches = []\<rparr> (projr dragThenPinch)
       = Inr (s2\<lparr>interaction := None\<rparr>)"
    by blast
  then have c3: "trace (projr (setInteraction defaultProps exampleHost 1040 None \<lparr>touches = []\<rparr>
                  (projr dragThenPinch)))
     = [OnDragStart, CancelEvent, OnZoomStart, CancelEvent, OnZoomEnd]"
    using dragThenPinch_eval by simp
  from b z' obtain s3 where "trace s3 = trace (projr dragThenPinch) @ [OnDragStart]"
    "setInteraction defaultProps exampleHost 1040 (Some Drag) \<lparr>touches = [fingerA]\<rparr>
        (projr dragThenPinch) = Inr (s3\<lparr>interaction := Some Drag\<rparr>)"
    by blast
  then have c4: "trace (projr (setInteraction defaultProps exampleHost 1040 (Some Drag)
                  \<lparr>touches = [fingerA]\<rparr> (projr dragThenPinch)))
     = [OnDragStart, CancelEvent, OnZoomStart, CancelEvent, OnDragStart]"
    using dragThenPinch_eval by simp
  from a b c1 c2 c3 c4 show ?thesis by blast
qed


section \<open>Zoom clamp\<close>

lemma scaleRun_range:
  "minZoom p \<le> maxZoom p \<Longrightarrow> zoomInRange p s \<Longrightarrow> scaleRun p h ops s = Inr ss \<Longrightarrow>
     \<forall>s' \<in> set ss. zoomInRange p s'"
proof (induction ops arbitrary: s ss)
  case Nil
  then show ?case by simp
next
  case (Cons a ops)
  obtain now operation where a: "a = (now, operation)" by (cases a)
  from Cons.prems(3) a obtain s1 ss1 where
    s1: "scaleStep p h now operation s = Inr s1"
    and ss1: "scaleRun p h ops s1 = Inr ss1" and ss: "ss = s1 # ss1"
    by (auto simp: andThen_eq_Inr)
  from s1 Cons.prems(1,2) have r: "zoomInRange p s1" using scaleStep_range by blast
  from Cons.IH [OF Cons.prems(1) r ss1] r ss show ?case by simp
qed

subsection \<open>The zoom factor over all JavaScript numbers\<close>

lemma quotientX_jsdiv: "jsdiv a b = Inr q \<longleftrightarrow> quotientX a b = Finite q"
  by (auto simp: jsdiv_def quotientX_def)

lemma zoomFactorAfter_Finite:
  "zoomFactorAfter p (Finite k) z = Finite (clamp (minZoom p) (maxZoom p) (z * k))"
  by (simp add: zoomFactorAfter_def clampX_def clamp_def)

lemma zoomFactorAfter_NaN: "timesX z x = NaN \<Longrightarrow> zoomFactorAfter p x z = NaN"
  by (simp add: zoomFactorAfter_def clampX_def)

lemma zoomFactorAfter_range:
  assumes "minZoom p \<le> maxZoom p" "timesX z x \<noteq> NaN"
  shows "\<exists>v. zoomFactorAfter p x z = Finite v \<and> minZoom p \<le> v \<and> v \<le> maxZoom p"
proof (cases "timesX z x")
  case (Finite w)
  then have "zoomFactorAfter p x z = Finite (clamp (minZoom p) (maxZoom p) w)"
    by (simp add: zoomFactorAfter_def clampX_def clamp_def)
  with clamp_range [OF assms(1)] show ?thesis by simp
next
  case PosInfinity
  with assms(1) show ?thesis by (simp add: zoomFactorAfter_def clampX_def)
next
  case NegInfinity
  with assms(1) show ?thesis by (simp add: zoomFactorAfter_def clampX_def)
next
  case NaN
  with assms(2) show ?thesis by simp
qed

text \<open>
  A pinch step that scales (the fourth and later ones of a gesture): where the model has a
  result, its zoom factor is the one computed over all numbers from the quotient
  \<open>newScale / _lastScale\<close>.
\<close>

lemma handleZoom_zoomFactorAfter:
  assumes "handleZoom p h ev ns s = Inr s'" "3 \<le> nthZoom s"
  shows "zoomFactorAfter p (quotientX ns (lastScale s)) (zoomFactor s) = Finite (zoomFactor s')"
proof -
  from assms obtain c k s2 where k: "jsdiv ns (lastScale s) = Inr k"
    and s2: "scale p k c (s\<lparr>lastScale := ns, nthZoom := nthZoom s + 1\<rparr>) = Inr s2"
    and s': "s' = (drag p c (lastZoomCenter s2) s2)\<lparr>lastZoomCenter := Some c\<rparr>"
    by (auto simp: handleZoom_def Let_def andThen_eq_Inr split: if_splits)
  from k have "quotientX ns (lastScale s) = Finite k" by (simp add: quotientX_jsdiv)
  moreover from zoomFactor_scale [OF s2] s'
  have "zoomFactor s' = clamp (minZoom p) (maxZoom p) (zoomFactor s * k)" by simp
  ultimately show ?thesis by (simp add: zoomFactorAfter_Finite)
qed

lemma sanitize_zoomFactor: "sanitize p h now s = Inr s' \<Longrightarrow> zoomFactor s' = zoomFactor s"
  by (auto simp: sanitize_def zoomOutAnimation_def sanitizeOffsetAnimation_def Let_def
      andThen_eq_Inr split: if_splits)

text \<open>
  C1, amended. Let \<open>minZoom \<le> maxZoom\<close> and let the zoom factor start within
  \<open>[minZoom, maxZoom]\<close>. A call of \<open>_scaleZoomFactor\<close> with a finite scale leaves the
  zoom factor in that range; so does a call with any scale for which the product
  \<open>zoomFactor * scale\<close> is not \<open>NaN\<close>, an infinite scale included; when the product is
  \<open>NaN\<close> the zoom factor becomes \<open>NaN\<close>. A pinch step calls it with the quotient
  \<open>newScale / _lastScale\<close>. Along every sequence of pinch steps, wheel events,
  double-tap frames, zoom-out frames and calls of \<open>scaleTo\<close> in which no operation is a
  fault (no quotient has a zero divisor, nothing is read from \<open>undefined\<close>), the zoom
  factor lies in the range after every operation, also after a call of settle there, and
  the scale that \<open>onUpdate\<close> is given is that zoom factor times \<open>initialZoomFactor\<close>.
\<close>

theorem zoom_clamp:
  assumes "minZoom p \<le> maxZoom p" and "zoomInRange p s"
  shows "zoomInRange p (snd (scaleZoomFactor p k s)) \<and>
         zoomFactorAfter p (Finite k) (zoomFactor s)
           = Finite (zoomFactor (snd (scaleZoomFactor p k s))) \<and>
         (timesX (zoomFactor s) x \<noteq> NaN \<longrightarrow>
            (\<exists>v. zoomFactorAfter p x (zoomFactor s) = Finite v \<and>
                 minZoom p \<le> v \<and> v \<le> maxZoom p)) \<and>
         (timesX (zoomFactor s) x = NaN \<longrightarrow> zoomFactorAfter p x (zoomFactor s) = NaN) \<and>
         (handleZoom p h ev ns s = Inr s1 \<and> 3 \<le> nthZoom s \<longrightarrow>
            zoomFactorAfter p (quotientX ns (lastScale s)) (zoomFactor s)
              = Finite (zoomFactor s1)) \<and>
         (scaleRun p h ops s = Inr ss \<longrightarrow>
            (\<forall>s' \<in> set ss. zoomInRange p s' \<and>
               (\<forall>now s''. sanitize p h now s' = Inr s'' \<longrightarrow>
                  zoomInRange p s'' \<and>
                  uScale (updateFrame s'') = initialZoomFactor s'' * zoomFactor s'')))"
proof (intro conjI impI ballI allI)
  show "zoomInRange p (snd (scaleZoomFactor p k s))"
    using assms(1) by (simp add: zoomInRange_def zoomFactor_scaleZoomFactor clamp_range)
  show "zoomFactorAfter p (Finite k) (zoomFactor s)
          = Finite (zoomFactor (snd (scaleZoomFactor p k s)))"
    by (simp add: zoomFactorAfter_Finite zoomFactor_scaleZoomFactor)
  show "\<exists>v. zoomFactorAfter p x (zoomFactor s) = Finite v \<and> minZoom p \<le> v \<and> v \<le> maxZoom p"
    if "timesX (zoomFactor s) x \<noteq> NaN"
    using zoomFactorAfter_range [OF assms(1) that] .
  show "zoomFactorAfter p x (zoomFactor s) = NaN" if "timesX (zoomFactor s) x = NaN"
    using that by (rule zoomFactorAfter_NaN)
  show "zoomFactorAfter p (quotientX ns (lastScale s)) (zoomFactor s) = Finite (zoomFactor s1)"
    if "handleZoom p h ev ns s = Inr s1 \<and> 3 \<le> nthZoom s"
    using that handleZoom_zoomFactorAfter by blast
next
  fix s' assume run: "scaleRun p h ops s = Inr ss" and s': "s' \<in> set ss"
  from scaleRun_range [OF assms run] s' show r: "zoomInRange p s'" by blast
  fix now s'' assume "sanitize p h now s' = Inr s''"
  from sanitize_zoomFactor [OF this] r show "zoomInRange p s''"
    by (simp add: zoomInRange_def)
  show "uScale (updateFrame s'') = initialZoomFactor s'' * zoomFactor s''"
    by (simp add: updateFrame_def Let_def)
qed

lemma exampleOps_run:
  "\<exists>ss. scaleRun defaultProps exampleHost exampleOps initialState = Inr ss \<and>
        map zoomFactor ss = [11 / 10, 5]"
  by (simp add: handlerWheel_def defaultProps_def exampleHost_def ctrlWheel_def
      initialState_def defaultShouldInterceptWheel_def isZoomGesture_def
      getOffsetByFirstTouch_def getOffsetTouches_def scaleTo'_def scale_def
      scaleZoomFactor_def clamp_def emit_def addOffset_def stopAnimation_def update_def
      scaleTo_def Let_def zeroPoint_def exampleOps_def)

lemma pinchCollapse_eval:
  "\<not> isl pinchCollapse \<and> zoomFactor (projr pinchCollapse) = 1 / 2 \<and>
   lastScale (projr pinchCollapse) = 0 \<and> nthZoom (projr pinchCollapse) = 4 \<and>
   offset (projr pinchCollapse) = \<lparr>px = -50, py = -25\<rparr> \<and>
   startTouches (projr pinchCollapse) = Some (touches (shifted 0)) \<and>
   interaction (projr pinchCollapse) = Some Zoom"
  by (simp add: pinchCollapse_def coincident_def shifted_def eval_defs zoomMove_def
      handleZoom_def getVectorAvg_def getDistance_horizontal scale_def scaleZoomFactor_def
      fitHost_def)

theorem zoom_clamp_witness:
  "minZoom defaultProps \<le> maxZoom defaultProps \<and> zoomInRange defaultProps initialState \<and>
   zoomInRange defaultProps (snd (scaleZoomFactor defaultProps 10 initialState)) \<and>
   zoomFactorAfter defaultProps (Finite 10) (zoomFactor initialState) = Finite 5 \<and>
   timesX (zoomFactor initialState) PosInfinity \<noteq> NaN \<and>
   zoomFactorAfter defaultProps PosInfinity (zoomFactor initialState) = Finite 5 \<and>
   timesX (zoomFactor initialState) NaN = NaN \<and>
   zoomFactorAfter defaultProps NaN (zoomFactor initialState) = NaN \<and>
   zoomInRange defaultProps (pinchState\<lparr>nthZoom := 3\<rparr>) \<and>
   3 \<le> nthZoom (pinchState\<lparr>nthZoom := 3\<rparr>) \<and>
   \<not> isl (handleZoom defaultProps exampleHost pinchEvent 2 (pinchState\<lparr>nthZoom := 3\<rparr>)) \<and>
   zoomFactor (projr (handleZoom defaultProps exampleHost pinchEvent 2
                        (pinchState\<lparr>nthZoom := 3\<rparr>))) = 2 \<and>
   zoomFactorAfter defaultProps (quotientX 2 (lastScale (pinchState\<lparr>nthZoom := 3\<rparr>)))
       (zoomFactor (pinchState\<lparr>nthZoom := 3\<rparr>))
     = Finite (zoomFactor (projr (handleZoom defaultProps exampleHost pinchEvent 2
                                    (pinchState\<lparr>nthZoom := 3\<rparr>)))) \<and>
   \<not> isl (scaleRun defaultProps exampleHost exampleOps initialState) \<and>
   map zoomFactor (projr (scaleRun defaultProps exampleHost exampleOps initialState))
     = [11 / 10, 5] \<and>
   list_all (zoomInRange defaultProps)
     (projr (scaleRun defaultProps exampleHost exampleOps initialState)) \<and>
   \<not> isl (sanitize defaultProps exampleHost 10
            (last (projr (scaleRun defaultProps exampleHost exampleOps initialState)))) \<and>
   zoomInRange defaultProps
     (projr (sanitize defaultProps exampleHost 10
               (last (projr (scaleRun defaultProps exampleHost exampleOps initialState)))))"
proof -
  let ?st = "pinchState\<lparr>nthZoom := 3\<rparr>"
  have a: "minZoom defaultProps \<le> maxZoom defaultProps"
    by (simp add: defaultProps_def)
  have b: "zoomInRange defaultProps initialState" "zoomInRange defaultProps ?st"
    by (simp_all add: zoomInRange_def defaultProps_def initialState_def pinchState_def)
  have c: "timesX (zoomFactor initialState) PosInfinity \<noteq> NaN"
    "timesX (zoomFactor initialState) NaN = NaN" "3 \<le> nthZoom ?st"
    by (simp_all add: initialState_def)
  have hz: "handleZoom defaultProps exampleHost pinchEvent 2 ?st
              = Inr (projr (handleZoom defaultProps exampleHost pinchEvent 2 ?st))"
    "zoomFactor (projr (handleZoom defaultProps exampleHost pinchEvent 2 ?st)) = 2"
    by (simp_all add: handleZoom_def getVectorAvg_def pinchEvent_def pinchState_def
        scale_def scaleZoomFactor_def eval_defs)
  then have hz': "\<not> isl (handleZoom defaultProps exampleHost pinchEvent 2 ?st)"
    by (metis sum.disc(2))
  from exampleOps_run obtain ss where
    ss: "scaleRun defaultProps exampleHost exampleOps initialState = Inr ss"
    and zs: "map zoomFactor ss = [11 / 10, 5]" by (elim exE conjE)
  from zs have ne: "ss \<noteq> []" by auto
  from sanitize_total [of defaultProps exampleHost 10 "last ss"] obtain s'' where
    sa: "sanitize defaultProps exampleHost 10 (last ss) = Inr s''" by blast
  note t1 = zoom_clamp [OF a b(1), where k = 10 and x = PosInfinity and h = exampleHost
      and ops = exampleOps and ss = ss]
  note t2 = zoom_clamp [OF a b(1), where x = NaN]
  note t3 = zoom_clamp [OF a b(2), where h = exampleHost and ev = pinchEvent and ns = 2
      and ?s1.0 = "projr (handleZoom defaultProps exampleHost pinchEvent 2 ?st)"]
  from t1 have g1: "zoomInRange defaultProps (snd (scaleZoomFactor defaultProps 10 initialState))"
    by blast
  from t1 have "zoomFactorAfter defaultProps (Finite 10) (zoomFactor initialState)
      = Finite (zoomFactor (snd (scaleZoomFactor defaultProps 10 initialState)))" by blast
  then have g2: "zoomFactorAfter defaultProps (Finite 10) (zoomFactor initialState) = Finite 5"
    by (simp add: scaleZoomFactor_def Let_def clamp_def defaultProps_def initialState_def)
  from t1 c(1) obtain v where
    "zoomFactorAfter defaultProps PosInfinity (zoomFactor initialState) = Finite v" by blast
  then have g3: "zoomFactorAfter defaultProps PosInfinity (zoomFactor initialState) = Finite 5"
    by (simp add: zoomFactorAfter_def clampX_def defaultProps_def initialState_def)
  from t2 c(2) have g4: "zoomFactorAfter defaultProps NaN (zoomFactor initialState) = NaN"
    by blast
  from t3 hz(1) c(3)
  have g5: "zoomFactorAfter defaultProps (quotientX 2 (lastScale ?st)) (zoomFactor ?st)
     = Finite (zoomFactor (projr (handleZoom defaultProps exampleHost pinchEvent 2 ?st)))"
    by blast
  from t1 ss have all: "\<forall>s' \<in> set ss. zoomInRange defaultProps s' \<and>
       (\<forall>now s''. sanitize defaultProps exampleHost now s' = Inr s'' \<longrightarrow>
          zoomInRange defaultProps s'')"
    by blast
  then have g6: "list_all (zoomInRange defaultProps) ss" unfolding list_all_iff by blast
  from all ne sa have g7: "zoomInRange defaultProps s''"
    using last_in_set [OF ne] by blast
  from a b c hz(2) hz' g1 g2 g3 g4 g5 g6 g7 zs show ?thesis
    unfolding ss by (simp add: sa)
qed

text \<open>
  With the default props and the default range \<open>[0.5, 5]\<close>: during a pinch, a move with
  both fingers at one point has \<open>newScale = 0\<close>; the step scales by \<open>0 / 1\<close>, the zoom
  factor is clamped to 0.5 and \<open>_lastScale\<close> becomes 0. At the next such move the scale
  is \<open>0 / 0\<close>, which is \<open>NaN\<close>, and \<open>_scaleZoomFactor\<close> leaves \<open>NaN\<close> in the zoom
  factor, since both comparisons of the clamp are false. The model reports the fault there.
\<close>

theorem zoom_clamp_counterexample:
  "minZoom defaultProps \<le> maxZoom defaultProps \<and>
   \<not> isl pinchCollapse \<and>
   zoomInRange defaultProps (projr pinchCollapse) \<and>
   zoomFactor (projr pinchCollapse) = 1 / 2 \<and>
   lastScale (projr pinchCollapse) = 0 \<and>
   nthZoom (projr pinchCollapse) = 4 \<and>
   startTouches (projr pinchCollapse) = Some (touches (shifted 0)) \<and>
   calculateScale (touches (shifted 0)) (touches coincident) = Inr 0 \<and>
   quotientX 0 (lastScale (projr pinchCollapse)) = NaN \<and>
   zoomFactorAfter defaultProps NaN (zoomFactor (projr pinchCollapse)) = NaN \<and>
   handlerOnTouchMove defaultProps fitHost 1060 coincident (projr pinchCollapse)
     = Inl NonFinite"
proof -
  have "calculateScale (touches (shifted 0)) (touches coincident) = Inr 0"
    by (simp add: shifted_def coincident_def getDistance_horizontal)
  moreover have "handlerOnTouchMove defaultProps fitHost 1060 coincident (projr pinchCollapse)
     = Inl NonFinite"
    by (simp add: pinchCollapse_def coincident_def shifted_def eval_defs zoomMove_def
        handleZoom_def getVectorAvg_def getDistance_horizontal scale_def scaleZoomFactor_def
        fitHost_def)
  ultimately show ?thesis
    using pinchCollapse_eval
    by (simp add: zoomInRange_def defaultProps_def quotientX_def zoomFactorAfter_def
        clampX_def)
qed


section \<open>Render loops\<close>


lemma update_keeps [simp]:
  "offset (update b s) = offset s" "initialZoomFactor (update b s) = initialZoomFactor s"
  "initialOffset (update b s) = initialOffset s" "inAnimation (update b s) = inAnimation s"
  "animations (update b s) = animations s"
  by (simp_all add: update_def emit_def)

lemma stopAnimation_keeps [simp]:
  "offset (stopAnimation s) = offset s" "initialZoomFactor (stopAnimation s) = initialZoomFactor s"
  "initialOffset (stopAnimation s) = initialOffset s"
  "animations (stopAnimation s) = animations s"
  by (simp_all add: stopAnimation_def)

lemma runCallback_NoCallback [simp]: "runCallback p h t NoCallback s = Inr s"
  by (simp add: runCallback_def)




subsection \<open>Frame callbacks while one loop is pending\<close>










section \<open>Settle\<close>



lemma animate_fields [simp]:
  "inAnimation (animate p now f cb d s)" "offset (animate p now f cb d s) = offset s"
  "initialZoomFactor (animate p now f cb d s) = initialZoomFactor s"
  "initialOffset (animate p now f cb d s) = initialOffset s"
  "animations (animate p now f None None s)
     = animations s @ [\<lparr>aFrameFn = f, aStartTime = now, aDuration = animationDuration p,
                         aCallback = NoCallback\<rparr>]"
  by (simp_all add: animate_def Let_def)




lemma fit_width:
  fixes cw rw ch rh :: real
  assumes "0 < cw" "0 < ch"
  shows "cw * min (rw / cw) (rh / ch) \<le> rw"
proof -
  have "cw * min (rw / cw) (rh / ch) \<le> cw * (rw / cw)"
    using assms(1) by (intro mult_left_mono) simp_all
  also have "\<dots> = rw" using assms(1) by simp
  finally show ?thesis .
qed

lemma centred_in_bounds:
  fixes el r pad :: real
  assumes "el \<le> r" "0 \<le> pad"
  shows "clamp (min (el - r + pad) 0 - pad) (max (el - r + pad) 0) (- \<bar>el - r\<bar> / 2)
           = - \<bar>el - r\<bar> / 2"
proof (rule clamp_fixed)
  from assms show "min (el - r + pad) 0 - pad \<le> - \<bar>el - r\<bar> / 2"
    by (auto simp: min_def abs_if field_simps)
  from assms show "- \<bar>el - r\<bar> / 2 \<le> max (el - r + pad) 0"
    by (auto simp: max_def abs_if field_simps)
qed

text \<open>
  After a resize that sets the offsets, with a child of positive size and non-negative
  paddings, the initial offset lies within the bounds at zoom factor 1.
\<close>

lemma onResize_initialOffset:
  assumes "0 < childWidth h" "0 < childHeight h"
    and "0 \<le> horizontalPadding p" "0 \<le> verticalPadding p"
    and "\<not> (setOffsetsOnce p \<and> isOffsetsSet s)"
    and "onResize p h s = Inr s'"
  shows "sanitizeOffset p h (s'\<lparr>zoomFactor := 1\<rparr>) (initialOffset s') = initialOffset s'"
proof -
  let ?i = "min (rectWidth h / childWidth h) (rectHeight h / childHeight h)"
  from assms(1,2,5,6) have i: "initialZoomFactor s' = ?i"
    and o: "initialOffset s' = \<lparr>px = - \<bar>childWidth h * ?i - rectWidth h\<bar> / 2,
                                py = - \<bar>childHeight h * ?i - rectHeight h\<bar> / 2\<rparr>"
    by (auto simp: onResize_def updateInitialZoomFactor_def setupOffsets_def resetOffset_def
        computeInitialOffset_def Let_def update_def)
  have w: "childWidth h * ?i \<le> rectWidth h"
    using fit_width [OF assms(1,2)] .
  have "childHeight h * min (rectHeight h / childHeight h) (rectWidth h / childWidth h) \<le> rectHeight h"
    using fit_width [OF assms(2,1)] .
  then have hh: "childHeight h * ?i \<le> rectHeight h" by (simp add: min.commute)
  show ?thesis
    unfolding sanitizeOffset_def Let_def o
    using centred_in_bounds [OF w assms(3)] centred_in_bounds [OF hh assms(4)] i
    by simp
qed


lemma swing_half: "swing (1 / 2) = 1 / 2"
  by (simp add: swing_def)









section \<open>Double tap\<close>



lemmas tap_defs = tapRun_def tap_def tick_def renderFrame_def
  swing_half scaleTo'_def scale_def scaleZoomFactor_def updateFrame_def
  fingerA_def






text \<open>
  With a loop pending the outcome is another one. The third tap comes at zoom factor 1.5
  and starts a loop from 1.5 to 2.5; the loop of the second tap has its final frame,
  sets the zoom factor to 2 and clears \<open>_inAnimation\<close>, and the loop of the third tap
  stops at its next frame: the zoom factor stays at 2.
\<close>

lemma earlyThirdTap_eval:
  "\<not> isl earlyThirdTap \<and> zoomFactor (projr earlyThirdTap) = 2 \<and>
   \<not> inAnimation (projr earlyThirdTap) \<and> animations (projr earlyThirdTap) = []"
  by (simp add: earlyThirdTap_def firstTap_def tap_defs eval_defs)



end
